theory Spec2Isabelle
  imports Main "HOL-Library.AList"
begin

section \<open>Data model of \<^verbatim>\<open>src/lib/filters/filter.ts\<close>\<close>

text \<open>
  Generated classes are JavaScript objects with identity. They live in an explicit
  store (\<open>heap\<close>, a list of class descriptions); a reference is the index of the
  class in the store, and a new class is appended at the end. Entity classes supplied by
  the caller are identified by a \<open>class_id\<close>.
\<close>

type_synonym ref = nat
type_synonym class_id = nat

text \<open>The enum \<^verbatim>\<open>OperationQuery\<close>, in declaration order.\<close>

datatype OperationQuery =
    Op_eq | Op_neq | Op_gt | Op_gte | Op_lt | Op_lte | Op_in | Op_notin
  | Op_like | Op_notlike | Op_between | Op_notbetween | Op_null

text \<open>\<^verbatim>\<open>Object.keys(OperationQuery)\<close>: the keys of a string enum, in declaration order.\<close>

definition operationKeys :: "OperationQuery list" where
  "operationKeys =
     [Op_eq, Op_neq, Op_gt, Op_gte, Op_lt, Op_lte, Op_in, Op_notin,
      Op_like, Op_notlike, Op_between, Op_notbetween, Op_null]"

fun operationName :: "OperationQuery \<Rightarrow> string" where
  "operationName Op_eq = ''eq''"
| "operationName Op_neq = ''neq''"
| "operationName Op_gt = ''gt''"
| "operationName Op_gte = ''gte''"
| "operationName Op_lt = ''lt''"
| "operationName Op_lte = ''lte''"
| "operationName Op_in = ''in''"
| "operationName Op_notin = ''notin''"
| "operationName Op_like = ''like''"
| "operationName Op_notlike = ''notlike''"
| "operationName Op_between = ''between''"
| "operationName Op_notbetween = ''notbetween''"
| "operationName Op_null = ''null''"

text \<open>\<^verbatim>\<open>const arrayLikeOperations = new Set([between, notbetween, in])\<close> (line 23).\<close>

definition arrayLikeOperations :: "OperationQuery list" where
  "arrayLikeOperations = [Op_between, Op_notbetween, Op_in]"

text \<open>
  The values a \<^verbatim>\<open>typeFn\<close> returns and the type thunks handed to the \<^verbatim>\<open>Field\<close>
  decorator: the GraphQL scalars, a caller's class, an array literal \<^verbatim>\<open>[T]\<close>, or one
  of the classes generated here.
\<close>

datatype gql_type =
    GString | GInt | GFloat | GBoolean | GID | GDateTime
  | GClass class_id
  | GList gql_type
  | GGenerated ref

text \<open>Option objects and default values, as far as the source builds them.\<close>

datatype js_value =
    JsBool bool
  | JsString string
  | JsObject "(string \<times> js_value) list"

type_synonym js_options = "(string \<times> js_value) list"

text \<open>One application of the \<^verbatim>\<open>Field\<close> decorator to a class prototype.\<close>

record attribute =
  attr_name :: string
  attr_type :: gql_type
  attr_options :: js_options

text \<open>
  A generated class: its \<^verbatim>\<open>name\<close> property, the name and abstractness given to
  \<^verbatim>\<open>InputType\<close>, the class it extends, and the \<^verbatim>\<open>Field\<close> decorations applied
  to its prototype, in the order of application.
\<close>

record type_obj =
  class_name :: string
  input_name :: string
  isAbstract :: bool
  extends :: "ref option"
  fieldMetadata :: "attribute list"

text \<open>
  A field as the loops of \<^verbatim>\<open>generateFilterInputType\<close> see it: a property of the
  metadata registry (\<open>name\<close>, \<open>typeFn\<close>, \<open>options\<close>) or the object built from a custom
  filter field (\<open>name\<close>, \<open>typeFn\<close>, \<open>qlExp\<close>). \<open>typeFn\<close> holds the value the
  zero-argument producer returns; \<open>options\<close> is \<open>None\<close> where the object has no such
  property.
\<close>

record FilterFieldDefinition =
  name :: string
  typeFn :: gql_type
  options :: "js_options option"
  qlExp :: "string option"

text \<open>\<^verbatim>\<open>FilterInputTypeFieldMetadata\<close>: \<^verbatim>\<open>{name, typeFn, options: {sqlExp}}\<close>.\<close>

record FilterInputTypeFieldMetadata =
  fm_name :: string
  fm_typeFn :: gql_type
  fm_sqlExp :: string

text \<open>\<^verbatim>\<open>CustomFilterFieldDefinition\<close>: \<^verbatim>\<open>{name, typeFn, sqlExp}\<close>.\<close>

record CustomFilterFieldDefinition =
  cf_name :: string
  cf_typeFn :: gql_type
  sqlExp :: string

text \<open>
  An entity class passed by the caller: its identity, its \<^verbatim>\<open>name\<close>, its
  \<^verbatim>\<open>__extension__\<close>, the metadata stored on its prototype under
  \<^verbatim>\<open>CUSTOM_FILTER_INPUT_TYPE_DECORATOR_NAME\<close> (the \<^verbatim>\<open>fields\<close> of a
  \<^verbatim>\<open>FilterInputTypeDecoratorMetadata\<close>, \<open>None\<close> when absent), and the prototype's
  \<^verbatim>\<open>filterInputType\<close> flag and \<^verbatim>\<open>getFields()\<close> result.
\<close>

record BaseEntity =
  cid :: class_id
  cname :: string
  extension :: "string option"
  customFilterData :: "FilterInputTypeFieldMetadata list option"
  filterInputType :: bool
  getFields :: "FilterInputTypeFieldMetadata list"

text \<open>
  What a call can throw: the \<^verbatim>\<open>Error\<close> of line 124 with its message, and the
  errors raised inside the library calls of lines 109--120 (the library's
  \<^verbatim>\<open>UnableToFindFieldsError\<close> for a class, a \<^verbatim>\<open>TypeError\<close> of the language).
\<close>

datatype error = Error string | UnableToFindFieldsError string | TypeError string

text \<open>
  The library \<^verbatim>\<open>@nestjs/graphql\<close> is an external collaborator and a parameter of
  the model: the two lookups of \<^verbatim>\<open>TypeMetadataStorage\<close>, and the three calls
  \<^verbatim>\<open>PartialType(typeFn, InputType)\<close>, \<^verbatim>\<open>loadClassPluginMetadata([m])\<close> and
  \<^verbatim>\<open>compileClassMetadata([m])\<close>, each of which returns (\<open>None\<close>) or throws
  (\<open>Some e\<close>). The argument of the last two may hold \<^verbatim>\<open>undefined\<close> (\<open>None\<close>), as
  line 110 yields it for a class without object-type metadata. \<open>properties\<close> is what
  the metadata holds once \<^verbatim>\<open>compileClassMetadata\<close> has returned.
\<close>

record class_metadata =
  target :: class_id
  target_name :: string
  properties :: "FilterFieldDefinition list option"

record registry =
  getObjectTypeMetadataByTarget :: "class_id \<Rightarrow> class_metadata option"
  getObjectTypesMetadata :: "class_metadata list"
  PartialType :: "BaseEntity \<Rightarrow> error option"
  loadClassPluginMetadata :: "class_metadata option list \<Rightarrow> error option"
  compileClassMetadata :: "class_metadata option list \<Rightarrow> error option"

text \<open>The constants imported from \<^verbatim>\<open>./constants\<close>, parameters of the model.\<close>

record constants =
  FILTER_OPERATION_PREFIX :: "string option"
  FILTER_DECORATOR_NAME_METADATA_KEY :: string
  FILTER_DECORATOR_CUSTOM_FIELDS_METADATA_KEY :: string

text \<open>
  The three module-level \<^verbatim>\<open>Map\<close>s and the store of generated classes. A
  \<^verbatim>\<open>Map\<close> keeps insertion order and \<^verbatim>\<open>set\<close> replaces in place, which is
  \<^const>\<open>AList.update\<close>.
\<close>

record state =
  filterFullTypes :: "(string \<times> ref) list"
  filterTypes :: "(string \<times> ref) list"
  propertyTypes :: "(string \<times> ref) list"
  heap :: "type_obj list"

definition initialState :: state where
  "initialState = \<lparr>filterFullTypes = [], filterTypes = [], propertyTypes = [], heap = []\<rparr>"

section \<open>\<^verbatim>\<open>generateFilterPropertyType\<close> (lines 54--83)\<close>

definition PropertyFilterType :: string where
  "PropertyFilterType = ''PropertyFilterType''"

definition propertyKey :: "string \<Rightarrow> string \<Rightarrow> string" where
  "propertyKey fieldName parentName = fieldName @ parentName @ PropertyFilterType"

text \<open>The thunk given to \<^verbatim>\<open>Field\<close> for one operation (lines 65--73).\<close>

definition operationType :: "gql_type \<Rightarrow> OperationQuery \<Rightarrow> gql_type" where
  "operationType t op =
     (if op \<in> set arrayLikeOperations then GList t
      else if op \<in> set [Op_null] then GBoolean
      else t)"

text \<open>
  \<^verbatim>\<open>FILTER_OPERATION_PREFIX ? `${FILTER_OPERATION_PREFIX}${operationName}` : operationName\<close>:
  an undefined or empty prefix is falsy.
\<close>

definition operationAttrName :: "constants \<Rightarrow> OperationQuery \<Rightarrow> string" where
  "operationAttrName c op =
     (case FILTER_OPERATION_PREFIX c of
        None \<Rightarrow> operationName op
      | Some p \<Rightarrow> if p = [] then operationName op else p @ operationName op)"

text \<open>\<^verbatim>\<open>{...field.options, nullable: true}\<close>.\<close>

definition spreadNullable :: "js_options option \<Rightarrow> js_options" where
  "spreadNullable opts =
     AList.update ''nullable'' (JsBool True) (case opts of None \<Rightarrow> [] | Some os \<Rightarrow> os)"

definition operationAttribute ::
  "constants \<Rightarrow> FilterFieldDefinition \<Rightarrow> OperationQuery \<Rightarrow> attribute" where
  "operationAttribute c field op =
     \<lparr>attr_name = operationAttrName c op,
      attr_type = operationType (typeFn field) op,
      attr_options = spreadNullable (options field)\<rparr>"

definition PropertyFilter :: "constants \<Rightarrow> FilterFieldDefinition \<Rightarrow> string \<Rightarrow> type_obj" where
  "PropertyFilter c field key =
     \<lparr>class_name = key, input_name = key, isAbstract = True, extends = None,
      fieldMetadata = map (operationAttribute c field) operationKeys\<rparr>"

definition generateFilterPropertyType ::
  "constants \<Rightarrow> FilterFieldDefinition \<Rightarrow> string \<Rightarrow> state \<Rightarrow> ref \<times> state" where
  "generateFilterPropertyType c field parentName s =
     (let key = propertyKey (name field) parentName in
      case map_of (propertyTypes s) key of
        Some propType \<Rightarrow> (propType, s)
      | None \<Rightarrow>
          (let r = length (heap s) in
           (r, s\<lparr>heap := heap s @ [PropertyFilter c field key],
                 propertyTypes := AList.update key r (propertyTypes s)\<rparr>)))"

section \<open>\<^verbatim>\<open>generateFilterInputType\<close> (lines 85--151)\<close>

text \<open>\<^verbatim>\<open>classes.map(x => x.name).join('')\<close>.\<close>

definition concatNames :: "BaseEntity list \<Rightarrow> string" where
  "concatNames classes = concat (map cname classes)"

definition filterKey :: "BaseEntity list \<Rightarrow> string" where
  "filterKey classes = concatNames classes @ PropertyFilterType"

text \<open>The empty class of lines 92--97.\<close>

definition PartialObjectType :: "string \<Rightarrow> type_obj" where
  "PartialObjectType key =
     \<lparr>class_name = key, input_name = key, isAbstract = True, extends = None,
      fieldMetadata = []\<rparr>"

text \<open>Line 106: the objects built from an entity's custom filter fields.\<close>

definition customProps :: "FilterInputTypeFieldMetadata list \<Rightarrow> FilterFieldDefinition list" where
  "customProps fs =
     map (\<lambda>x. \<lparr>name = fm_name x, typeFn = fm_typeFn x, options = None,
                qlExp = Some (fm_sqlExp x)\<rparr>) fs"

text \<open>Line 115: the first object type whose target is named as the \<^verbatim>\<open>__extension__\<close>.\<close>

definition inheritedType :: "registry \<Rightarrow> BaseEntity \<Rightarrow> class_metadata option" where
  "inheritedType reg cls =
     (case extension cls of
        None \<Rightarrow> None
      | Some n \<Rightarrow> find (\<lambda>x. target_name x = n) (getObjectTypesMetadata reg))"

definition uninitializedMessage :: "BaseEntity \<Rightarrow> string" where
  "uninitializedMessage cls =
     ''DTO '' @ cname cls @ '' hasn'' @ [CHR 0x27] @ ''t been initialized yet''"

text \<open>
  \<^verbatim>\<open>loadClassPluginMetadata(ms); compileClassMetadata(ms)\<close>, as at lines 111--112 and
  119--120: the first throw ends the pair.
\<close>

definition compileMetadata :: "registry \<Rightarrow> class_metadata option list \<Rightarrow> error option" where
  "compileMetadata reg ms =
     (case loadClassPluginMetadata reg ms of
        Some e \<Rightarrow> Some e
      | None \<Rightarrow> compileClassMetadata reg ms)"

text \<open>
  Lines 109--121, all before the guard of line 123: the cast to an input type, the
  compilation of the class's metadata (\<open>None\<close> in the list when the class has none), and
  the compilation of the inherited type when there is one.
\<close>

definition prepareEntity :: "registry \<Rightarrow> BaseEntity \<Rightarrow> error option" where
  "prepareEntity reg cls =
     (case PartialType reg cls of
        Some e \<Rightarrow> Some e
      | None \<Rightarrow>
          (case compileMetadata reg [getObjectTypeMetadataByTarget reg (cid cls)] of
             Some e \<Rightarrow> Some e
           | None \<Rightarrow>
               (case inheritedType reg cls of
                  None \<Rightarrow> None
                | Some inherited \<Rightarrow> compileMetadata reg [Some inherited])))"

text \<open>
  The first loop (lines 103--130), with \<open>props\<close> the array \<^verbatim>\<open>properties\<close> so far.
  A throw inside the library calls, or the \<^verbatim>\<open>throw\<close> of line 124, ends it with
  \<open>Inl\<close>.
\<close>

fun collectProperties ::
  "registry \<Rightarrow> BaseEntity list \<Rightarrow> FilterFieldDefinition list \<Rightarrow>
   error + FilterFieldDefinition list" where
  "collectProperties reg [] props = Inr props"
| "collectProperties reg (cls # rest) props =
     (case customFilterData cls of
        Some customFields \<Rightarrow> collectProperties reg rest (props @ customProps customFields)
      | None \<Rightarrow>
          (case prepareEntity reg cls of
             Some e \<Rightarrow> Inl e
           | None \<Rightarrow>
               (case Option.bind (getObjectTypeMetadataByTarget reg (cid cls)) properties of
                  None \<Rightarrow> Inl (Error (uninitializedMessage cls))
                | Some own \<Rightarrow>
                    collectProperties reg rest
                      (props
                       @ (case Option.bind (inheritedType reg cls) properties of
                            None \<Rightarrow> [] | Some inherited \<Rightarrow> inherited)
                       @ own))))"

text \<open>
  Line 133: \<^verbatim>\<open>getObjectTypeMetadataByTarget(field.typeFn())\<close>. Only a caller's class
  can be the target of object-type metadata.
\<close>

fun targetClassMetadata :: "registry \<Rightarrow> gql_type \<Rightarrow> class_metadata option" where
  "targetClassMetadata reg (GClass c) = getObjectTypeMetadataByTarget reg c"
| "targetClassMetadata reg _ = None"

text \<open>\<^verbatim>\<open>Field(() => type, options)(cls.prototype, name)\<close> on the generated class \<open>r\<close>.\<close>

definition FieldDecorator :: "ref \<Rightarrow> attribute \<Rightarrow> state \<Rightarrow> state" where
  "FieldDecorator r a s =
     (if r < length (heap s)
      then s\<lparr>heap := (heap s)[r := (heap s ! r)\<lparr>fieldMetadata := fieldMetadata (heap s ! r) @ [a]\<rparr>]\<rparr>
      else s)"



definition fieldAttribute :: "FilterFieldDefinition \<Rightarrow> ref \<Rightarrow> attribute" where
  "fieldAttribute field fieldType =
     \<lparr>attr_name = name field, attr_type = GGenerated fieldType,
      attr_options = [(''nullable'', JsBool True)]\<rparr>"

text \<open>The second loop (lines 132--148) over \<^verbatim>\<open>properties\<close>, on the class \<open>r\<close>.\<close>

fun addFields ::
  "constants \<Rightarrow> registry \<Rightarrow> string \<Rightarrow> ref \<Rightarrow> FilterFieldDefinition list \<Rightarrow> state \<Rightarrow> state" where
  "addFields c reg parentName r [] s = s"
| "addFields c reg parentName r (field # rest) s =
     (case targetClassMetadata reg (typeFn field) of
        None \<Rightarrow>
          (case generateFilterPropertyType c field parentName s of
             (fieldType, s1) \<Rightarrow>
               addFields c reg parentName r rest (FieldDecorator r (fieldAttribute field fieldType) s1))
      | Some targetMetadata \<Rightarrow> addFields c reg parentName r rest s)"

text \<open>Lines 92--99: create the empty class and cache it under the key.\<close>

definition cachePlaceholder :: "string \<Rightarrow> state \<Rightarrow> ref \<times> state" where
  "cachePlaceholder key s =
     (let r = length (heap s) in
      (r, s\<lparr>heap := heap s @ [PartialObjectType key],
            filterTypes := AList.update key r (filterTypes s)\<rparr>))"

definition generateFilterInputType ::
  "constants \<Rightarrow> registry \<Rightarrow> BaseEntity list \<Rightarrow> state \<Rightarrow> (error + ref) \<times> state" where
  "generateFilterInputType c reg classes s =
     (case map_of (filterTypes s) (filterKey classes) of
        Some cached \<Rightarrow> (Inr cached, s)
      | None \<Rightarrow>
          (case cachePlaceholder (filterKey classes) s of
             (r, s1) \<Rightarrow>
               (case collectProperties reg classes [] of
                  Inl e \<Rightarrow> (Inl e, s1)
                | Inr props \<Rightarrow> (Inr r, addFields c reg (concatNames classes) r props s1))))"

section \<open>\<^verbatim>\<open>getFilterFullInputType\<close> (lines 176--196)\<close>

definition whereKey :: "BaseEntity list \<Rightarrow> string" where
  "whereKey classes = ''where'' @ concatNames classes @ ''Input''"

definition discriminatorDescription :: string where
  "discriminatorDescription =
     ''Don'' @ [CHR 0x27]
     @ ''t touch this field. Reserved for nestjs-graphql-toos purposes.''"

text \<open>
  The class of lines 185--193. Property decorators run in declaration order:
  \<^verbatim>\<open>_name_\<close>, \<^verbatim>\<open>and\<close>, \<^verbatim>\<open>or\<close>.
\<close>

definition EntityWhereInput :: "constants \<Rightarrow> string \<Rightarrow> ref \<Rightarrow> type_obj" where
  "EntityWhereInput c key FilterInputType =
     \<lparr>class_name = ''EntityWhereInput'', input_name = key, isAbstract = False,
      extends = Some FilterInputType,
      fieldMetadata =
        [\<lparr>attr_name = ''_name_'', attr_type = GString,
          attr_options = [(''defaultValue'', JsString (FILTER_DECORATOR_NAME_METADATA_KEY c)),
                          (''description'', JsString discriminatorDescription)]\<rparr>,
         \<lparr>attr_name = ''and'', attr_type = GList (GGenerated FilterInputType),
          attr_options = [(''nullable'', JsBool True)]\<rparr>,
         \<lparr>attr_name = ''or'', attr_type = GList (GGenerated FilterInputType),
          attr_options = [(''nullable'', JsBool True)]\<rparr>]\<rparr>"

definition getFilterFullInputType ::
  "constants \<Rightarrow> registry \<Rightarrow> BaseEntity list \<Rightarrow> state \<Rightarrow> (error + ref) \<times> state" where
  "getFilterFullInputType c reg classes s =
     (case map_of (filterFullTypes s) (whereKey classes) of
        Some cached \<Rightarrow> (Inr cached, s)
      | None \<Rightarrow>
          (case generateFilterInputType c reg classes s of
             (Inl e, s1) \<Rightarrow> (Inl e, s1)
           | (Inr FilterInputType, s1) \<Rightarrow>
               (let r = length (heap s1) in
                (Inr r,
                 s1\<lparr>heap := heap s1 @ [EntityWhereInput c (whereKey classes) FilterInputType],
                    filterFullTypes := AList.update (whereKey classes) r (filterFullTypes s1)\<rparr>))))"



section \<open>\<^verbatim>\<open>Filter\<close> (lines 198--230)\<close>

text \<open>The value of \<^verbatim>\<open>baseEntity()\<close>: one class or an array of classes.\<close>

datatype entity_result = Single BaseEntity | Many "BaseEntity list"

record IFilterDecoratorParams =
  param_name :: "string option"

text \<open>The object given to \<^verbatim>\<open>Args\<close> (lines 223--228).\<close>

record ArgsOptions =
  arg_name :: string
  arg_nullable :: bool
  arg_defaultValue :: js_value
  arg_type :: ref

text \<open>
  A parameter position \<^verbatim>\<open>(target, propertyName, paramIndex)\<close>, and what the two
  external calls of the returned decorator leave behind: the metadata defined with
  \<^verbatim>\<open>Reflect.defineMetadata(key, value, target, propertyName)\<close> and the arguments
  registered with \<^verbatim>\<open>Args\<close>.
\<close>

type_synonym param_position = "nat \<times> string \<times> nat"

record host =
  definedMetadata :: "((string \<times> nat \<times> string) \<times> CustomFilterFieldDefinition list) list"
  registeredArgs :: "(param_position \<times> ArgsOptions) list"

definition initialHost :: host where
  "initialHost = \<lparr>definedMetadata = [], registeredArgs = []\<rparr>"

text \<open>Lines 200--204.\<close>

fun typeFunctions :: "entity_result \<Rightarrow> BaseEntity list" where
  "typeFunctions (Single e) = [e]"
| "typeFunctions (Many es) = es"

text \<open>Lines 207--219.\<close>

definition customFieldsOf :: "BaseEntity list \<Rightarrow> CustomFilterFieldDefinition list" where
  "customFieldsOf classes =
     foldl (\<lambda>acc x.
              if filterInputType x
              then acc @ map (\<lambda>field. \<lparr>cf_name = fm_name field, cf_typeFn = fm_typeFn field,
                                        sqlExp = fm_sqlExp field\<rparr>) (getFields x)
              else acc)
           [] classes"

text \<open>\<^verbatim>\<open>options?.name || 'where'\<close>: a missing or empty name is falsy.\<close>

definition argumentName :: "IFilterDecoratorParams option \<Rightarrow> string" where
  "argumentName opts =
     (case Option.bind opts param_name of
        None \<Rightarrow> ''where''
      | Some n \<Rightarrow> if n = [] then ''where'' else n)"

text \<open>The decorator returned at lines 221--229.\<close>

definition parameterDecorator ::
  "constants \<Rightarrow> CustomFilterFieldDefinition list \<Rightarrow> IFilterDecoratorParams option \<Rightarrow> ref \<Rightarrow>
   param_position \<Rightarrow> host \<Rightarrow> host" where
  "parameterDecorator c customFields opts filterFullType pos h =
     (case pos of
        (tgt, propertyName, paramIndex) \<Rightarrow>
          h\<lparr>definedMetadata :=
               AList.update (FILTER_DECORATOR_CUSTOM_FIELDS_METADATA_KEY c, tgt, propertyName)
                 customFields (definedMetadata h),
            registeredArgs :=
               registeredArgs h
               @ [((tgt, propertyName, paramIndex),
                   \<lparr>arg_name = argumentName opts, arg_nullable = True,
                    arg_defaultValue = JsObject [], arg_type = filterFullType\<rparr>)]\<rparr>)"

definition Filter ::
  "constants \<Rightarrow> registry \<Rightarrow> entity_result \<Rightarrow> IFilterDecoratorParams option \<Rightarrow> state \<Rightarrow>
   (error + (param_position \<Rightarrow> host \<Rightarrow> host)) \<times> state" where
  "Filter c reg baseEntity opts s =
     (case getFilterFullInputType c reg (typeFunctions baseEntity) s of
        (Inl e, s1) \<Rightarrow> (Inl e, s1)
      | (Inr filterFullType, s1) \<Rightarrow>
          (Inr (parameterDecorator c (customFieldsOf (typeFunctions baseEntity)) opts
                  filterFullType),
           s1))"

section \<open>Callbacks that call back into the module\<close>

text \<open>
  \<^verbatim>\<open>typeFn\<close> is a function of the caller, and the module calls it while it
  generates: at lines 133 and 136 for every field, and at line 64 once for every
  operation. The definitions above take from a call the value it returns. A callback can
  also call the module before it returns, and the only export that generates types is
  \<^verbatim>\<open>Filter\<close>: \<open>calls field\<close> lists the calls \<^verbatim>\<open>Filter(() => e)\<close> that each call of
  \<^verbatim>\<open>field.typeFn()\<close> makes, in order, before it returns \<open>typeFn field\<close>. Such a call
  runs on the caches and the store as they are at that moment, and what it throws leaves
  the callback and the generation around it.

  The definitions of this section are the same lines of the source with these calls in
  them. An outcome is \<open>None\<close> when a call does not return within the depth of nested
  callbacks that is allowed; callbacks that nest without end give \<open>None\<close> at every depth.
\<close>

type_synonym callbacks = "FilterFieldDefinition \<Rightarrow> entity_result list"
type_synonym 'a outcome = "((error + 'a) \<times> state) option"
type_synonym reentry = "entity_result \<Rightarrow> state \<Rightarrow> ref outcome"

text \<open>Sequencing: a call that does not return or that throws ends what follows it.\<close>

definition andThen :: "'a outcome \<Rightarrow> ('a \<Rightarrow> state \<Rightarrow> 'b outcome) \<Rightarrow> 'b outcome" where
  "andThen m k =
     (case m of
        None \<Rightarrow> None
      | Some (Inl e, s) \<Rightarrow> Some (Inl e, s)
      | Some (Inr x, s) \<Rightarrow> k x s)"

fun runCalls :: "reentry \<Rightarrow> entity_result list \<Rightarrow> state \<Rightarrow> unit outcome" where
  "runCalls reenter [] s = Some (Inr (), s)"
| "runCalls reenter (e # es) s = andThen (reenter e s) (\<lambda>root s1. runCalls reenter es s1)"

text \<open>One call \<^verbatim>\<open>field.typeFn()\<close>.\<close>

definition callTypeFn ::
  "reentry \<Rightarrow> callbacks \<Rightarrow> FilterFieldDefinition \<Rightarrow> state \<Rightarrow> gql_type outcome" where
  "callTypeFn reenter calls field s =
     andThen (runCalls reenter (calls field) s) (\<lambda>u s1. Some (Inr (typeFn field), s1))"

text \<open>Lines 60--61: the class \<^verbatim>\<open>PropertyFilter\<close> as \<^verbatim>\<open>InputType\<close> leaves it.\<close>

definition emptyPropertyFilter :: "string \<Rightarrow> type_obj" where
  "emptyPropertyFilter key =
     \<lparr>class_name = ''PropertyFilter'', input_name = key, isAbstract = True, extends = None,
      fieldMetadata = []\<rparr>"

text \<open>Lines 77--79: \<^verbatim>\<open>Object.defineProperty(PropertyFilter, 'name', {value: key})\<close>.\<close>

definition defineName :: "ref \<Rightarrow> string \<Rightarrow> state \<Rightarrow> state" where
  "defineName r key s =
     (if r < length (heap s)
      then s\<lparr>heap := (heap s)[r := (heap s ! r)\<lparr>class_name := key\<rparr>]\<rparr>
      else s)"

text \<open>Lines 63--75: for each operation, the call of line 64 and the decoration.\<close>

fun decorateOperations ::
  "reentry \<Rightarrow> callbacks \<Rightarrow> constants \<Rightarrow> FilterFieldDefinition \<Rightarrow> ref \<Rightarrow>
   OperationQuery list \<Rightarrow> state \<Rightarrow> unit outcome" where
  "decorateOperations reenter calls c field r [] s = Some (Inr (), s)"
| "decorateOperations reenter calls c field r (op # ops) s =
     andThen (callTypeFn reenter calls field s)
       (\<lambda>t s1. decorateOperations reenter calls c field r ops
                 (FieldDecorator r (operationAttribute c field op) s1))"

definition generateFilterPropertyType_reentrant ::
  "reentry \<Rightarrow> callbacks \<Rightarrow> constants \<Rightarrow> FilterFieldDefinition \<Rightarrow> string \<Rightarrow> state \<Rightarrow>
   ref outcome" where
  "generateFilterPropertyType_reentrant reenter calls c field parentName s =
     (let key = propertyKey (name field) parentName in
      case map_of (propertyTypes s) key of
        Some propType \<Rightarrow> Some (Inr propType, s)
      | None \<Rightarrow>
          (let r = length (heap s) in
           andThen
             (decorateOperations reenter calls c field r operationKeys
                (s\<lparr>heap := heap s @ [emptyPropertyFilter key]\<rparr>))
             (\<lambda>u s1.
                (let s2 = defineName r key s1 in
                 Some (Inr r, s2\<lparr>propertyTypes := AList.update key r (propertyTypes s2)\<rparr>)))))"

text \<open>Lines 132--148, with the calls of lines 133 and 136.\<close>

fun addFields_reentrant ::
  "reentry \<Rightarrow> callbacks \<Rightarrow> constants \<Rightarrow> registry \<Rightarrow> string \<Rightarrow> ref \<Rightarrow>
   FilterFieldDefinition list \<Rightarrow> state \<Rightarrow> unit outcome" where
  "addFields_reentrant reenter calls c reg parentName r [] s = Some (Inr (), s)"
| "addFields_reentrant reenter calls c reg parentName r (field # rest) s =
     andThen (callTypeFn reenter calls field s)
       (\<lambda>t s1.
          case targetClassMetadata reg t of
            Some targetMetadata \<Rightarrow> addFields_reentrant reenter calls c reg parentName r rest s1
          | None \<Rightarrow>
              andThen (callTypeFn reenter calls field s1)
                (\<lambda>t' s2.
                   andThen (generateFilterPropertyType_reentrant reenter calls c field parentName s2)
                     (\<lambda>fieldType s3.
                        addFields_reentrant reenter calls c reg parentName r rest
                          (FieldDecorator r (fieldAttribute field fieldType) s3))))"

text \<open>Lines 85--151.\<close>

definition generateFilterInputType_reentrant ::
  "reentry \<Rightarrow> callbacks \<Rightarrow> constants \<Rightarrow> registry \<Rightarrow> BaseEntity list \<Rightarrow> state \<Rightarrow>
   ref outcome" where
  "generateFilterInputType_reentrant reenter calls c reg classes s =
     (case map_of (filterTypes s) (filterKey classes) of
        Some cached \<Rightarrow> Some (Inr cached, s)
      | None \<Rightarrow>
          (case cachePlaceholder (filterKey classes) s of
             (r, s1) \<Rightarrow>
               (case collectProperties reg classes [] of
                  Inl e \<Rightarrow> Some (Inl e, s1)
                | Inr props \<Rightarrow>
                    andThen (addFields_reentrant reenter calls c reg (concatNames classes) r props s1)
                      (\<lambda>u s2. Some (Inr r, s2)))))"

text \<open>Lines 176--196.\<close>

definition getFilterFullInputType_reentrant ::
  "reentry \<Rightarrow> callbacks \<Rightarrow> constants \<Rightarrow> registry \<Rightarrow> BaseEntity list \<Rightarrow> state \<Rightarrow>
   ref outcome" where
  "getFilterFullInputType_reentrant reenter calls c reg classes s =
     (case map_of (filterFullTypes s) (whereKey classes) of
        Some cached \<Rightarrow> Some (Inr cached, s)
      | None \<Rightarrow>
          andThen (generateFilterInputType_reentrant reenter calls c reg classes s)
            (\<lambda>FilterInputType s1.
               (let r = length (heap s1) in
                Some (Inr r,
                      s1\<lparr>heap := heap s1 @ [EntityWhereInput c (whereKey classes) FilterInputType],
                         filterFullTypes :=
                           AList.update (whereKey classes) r (filterFullTypes s1)\<rparr>))))"

text \<open>
  A call \<^verbatim>\<open>Filter(() => e)\<close> made by a callback, as far as the caches and the store go
  (lines 200--205; the decorator it returns is dropped). Its own callbacks may nest
  \<open>depth\<close> deep.
\<close>

primrec Filter_reentrant ::
  "nat \<Rightarrow> callbacks \<Rightarrow> constants \<Rightarrow> registry \<Rightarrow> reentry" where
  "Filter_reentrant 0 calls c reg = (\<lambda>e s. None)"
| "Filter_reentrant (Suc depth) calls c reg =
     (\<lambda>e s. getFilterFullInputType_reentrant (Filter_reentrant depth calls c reg) calls c reg
               (typeFunctions e) s)"

section \<open>Well-formed caches\<close>

text \<open>
  Every class cached in \<^verbatim>\<open>filterTypes\<close> is in the store, and no two keys of
  \<^verbatim>\<open>filterTypes\<close> hold the same class. The initial state satisfies this and the
  generators keep it.
\<close>

definition filterTypesOk :: "state \<Rightarrow> bool" where
  "filterTypesOk s \<longleftrightarrow>
     list_all (\<lambda>kr. snd kr < length (heap s)) (filterTypes s) \<and>
     distinct (map snd (filterTypes s))"

section \<open>Example inputs\<close>

text \<open>
  Concrete inputs on which the theorems below are instantiated. The values of the
  constants are examples; \<open>Task\<close> has a field whose type is \<open>Task\<close> itself, \<open>User\<close>
  declares a custom filter field, and \<open>Draft\<close> has no metadata in the registry.
\<close>

definition exampleConstants :: constants where
  "exampleConstants =
     \<lparr>FILTER_OPERATION_PREFIX = None,
      FILTER_DECORATOR_NAME_METADATA_KEY = ''FilterPropertyDecorator'',
      FILTER_DECORATOR_CUSTOM_FIELDS_METADATA_KEY = ''FilterCustomFields''\<rparr>"

definition titleField :: FilterFieldDefinition where
  "titleField = \<lparr>name = ''title'', typeFn = GString, options = None, qlExp = None\<rparr>"

definition titleIntField :: FilterFieldDefinition where
  "titleIntField = \<lparr>name = ''title'', typeFn = GInt, options = None, qlExp = None\<rparr>"

definition doneField :: FilterFieldDefinition where
  "doneField = \<lparr>name = ''done'', typeFn = GBoolean, options = None, qlExp = None\<rparr>"

definition parentField :: FilterFieldDefinition where
  "parentField = \<lparr>name = ''parent'', typeFn = GClass 1, options = None, qlExp = None\<rparr>"

definition xStringField :: FilterFieldDefinition where
  "xStringField = \<lparr>name = ''x'', typeFn = GString, options = None, qlExp = None\<rparr>"

definition xIntField :: FilterFieldDefinition where
  "xIntField = \<lparr>name = ''x'', typeFn = GInt, options = None, qlExp = None\<rparr>"

definition plainEntity :: "class_id \<Rightarrow> string \<Rightarrow> BaseEntity" where
  "plainEntity i n =
     \<lparr>cid = i, cname = n, extension = None, customFilterData = None,
      filterInputType = False, getFields = []\<rparr>"

definition fullNameField :: FilterInputTypeFieldMetadata where
  "fullNameField =
     \<lparr>fm_name = ''fullName'', fm_typeFn = GString,
      fm_sqlExp = ''concat(fname,'' @ [CHR 0x27] @ '' '' @ [CHR 0x27] @ '',lname)''\<rparr>"

definition Task :: BaseEntity where "Task = plainEntity 1 ''Task''"
definition Draft :: BaseEntity where "Draft = plainEntity 3 ''Draft''"
definition EntityA :: BaseEntity where "EntityA = plainEntity 4 ''A''"
definition EntityB :: BaseEntity where "EntityB = plainEntity 5 ''B''"
definition Entity_a :: BaseEntity where "Entity_a = plainEntity 6 ''a''"
definition Entity_aa :: BaseEntity where "Entity_aa = plainEntity 7 ''aa''"

definition User :: BaseEntity where
  "User =
     \<lparr>cid = 2, cname = ''User'', extension = None, customFilterData = Some [fullNameField],
      filterInputType = True, getFields = [fullNameField]\<rparr>"

definition exampleMetadata :: "class_metadata list" where
  "exampleMetadata =
     [\<lparr>target = 1, target_name = ''Task'',
       properties = Some [titleField, doneField, parentField]\<rparr>,
      \<lparr>target = 4, target_name = ''A'', properties = Some [xStringField]\<rparr>,
      \<lparr>target = 5, target_name = ''B'', properties = Some [xIntField]\<rparr>,
      \<lparr>target = 6, target_name = ''a'', properties = Some []\<rparr>,
      \<lparr>target = 7, target_name = ''aa'', properties = Some []\<rparr>]"

text \<open>
  The registry of the examples. Its calls behave as the library's: \<^verbatim>\<open>PartialType\<close>
  throws \<^verbatim>\<open>UnableToFindFieldsError\<close> for a class that has no metadata,
  \<^verbatim>\<open>loadClassPluginMetadata\<close> passes over \<^verbatim>\<open>undefined\<close>, and
  \<^verbatim>\<open>compileClassMetadata\<close> reads a property of each element, a \<^verbatim>\<open>TypeError\<close>
  on \<^verbatim>\<open>undefined\<close>. In \<open>lenientRegistry\<close> the three calls return for every class.
\<close>

definition exampleRegistry :: registry where
  "exampleRegistry =
     \<lparr>getObjectTypeMetadataByTarget = (\<lambda>i. find (\<lambda>m. target m = i) exampleMetadata),
      getObjectTypesMetadata = exampleMetadata,
      PartialType =
        (\<lambda>cls. if find (\<lambda>m. target m = cid cls) exampleMetadata = None
                then Some (UnableToFindFieldsError (cname cls)) else None),
      loadClassPluginMetadata = (\<lambda>ms. None),
      compileClassMetadata =
        (\<lambda>ms. if None \<in> set ms
               then Some (TypeError ''Cannot read properties of undefined'') else None)\<rparr>"

definition lenientRegistry :: registry where
  "lenientRegistry =
     \<lparr>getObjectTypeMetadataByTarget = (\<lambda>i. find (\<lambda>m. target m = i) exampleMetadata),
      getObjectTypesMetadata = exampleMetadata,
      PartialType = (\<lambda>cls. None),
      loadClassPluginMetadata = (\<lambda>ms. None),
      compileClassMetadata = (\<lambda>ms. None)\<rparr>"

text \<open>
  Callbacks for a self-referential group: each call of the \<^verbatim>\<open>typeFn\<close> of the field
  \<open>title\<close> of \<open>Task\<close> calls \<^verbatim>\<open>Filter(() => Task)\<close> before it returns.
\<close>

definition selfCalls :: callbacks where
  "selfCalls field = (if name field = ''title'' then [Single Task] else [])"

lemmas example_defs =
  exampleConstants_def titleField_def titleIntField_def doneField_def parentField_def
  xStringField_def xIntField_def plainEntity_def fullNameField_def Task_def Draft_def
  EntityA_def EntityB_def Entity_a_def Entity_aa_def User_def exampleMetadata_def
  exampleRegistry_def lenientRegistry_def

lemmas model_defs =
  generateFilterPropertyType_def generateFilterInputType_def getFilterFullInputType_def
  cachePlaceholder_def PartialObjectType_def PropertyFilter_def EntityWhereInput_def
  FieldDecorator_def fieldAttribute_def filterKey_def whereKey_def concatNames_def
  propertyKey_def PropertyFilterType_def operationAttribute_def operationAttrName_def
  operationType_def spreadNullable_def arrayLikeOperations_def operationKeys_def
  initialState_def customProps_def inheritedType_def uninitializedMessage_def
  prepareEntity_def compileMetadata_def Let_def

section \<open>Properties of the generators\<close>

lemma gfpt_hit:
  "map_of (propertyTypes s) (propertyKey (name f) p) = Some r \<Longrightarrow>
   generateFilterPropertyType c f p s = (r, s)"
  by (simp add: generateFilterPropertyType_def)

lemma gfpt_miss:
  "map_of (propertyTypes s) (propertyKey (name f) p) = None \<Longrightarrow>
   generateFilterPropertyType c f p s =
     (length (heap s),
      s\<lparr>heap := heap s @ [PropertyFilter c f (propertyKey (name f) p)],
        propertyTypes := AList.update (propertyKey (name f) p) (length (heap s)) (propertyTypes s)\<rparr>)"
  by (simp add: generateFilterPropertyType_def Let_def)

lemma gfpt_cached:
  "generateFilterPropertyType c f p s = (r, s1) \<Longrightarrow>
   map_of (propertyTypes s1) (propertyKey (name f) p) = Some r"
  by (auto simp: generateFilterPropertyType_def Let_def update_conv' split: option.splits)

lemma gfpt_filterTypes:
  "generateFilterPropertyType c f p s = (r, s1) \<Longrightarrow>
   filterTypes s1 = filterTypes s \<and> filterFullTypes s1 = filterFullTypes s"
  by (auto simp: generateFilterPropertyType_def Let_def split: option.splits)

lemma gfpt_heap:
  "generateFilterPropertyType c f p s = (r, s1) \<Longrightarrow>
   length (heap s) \<le> length (heap s1) \<and> (\<forall>i < length (heap s). heap s1 ! i = heap s ! i)"
  by (auto simp: generateFilterPropertyType_def Let_def nth_append split: option.splits)

lemma gfpt_mono:
  "generateFilterPropertyType c f p s = (r, s1) \<Longrightarrow>
   map_of (propertyTypes s) k = Some v \<Longrightarrow> map_of (propertyTypes s1) k = Some v"
  by (auto simp: generateFilterPropertyType_def Let_def update_conv' split: option.splits)

lemma propertyKey_inject [simp]: "propertyKey n p = propertyKey m p \<longleftrightarrow> n = m"
  by (simp add: propertyKey_def)

lemma gfpt_other_key:
  "generateFilterPropertyType c f p s = (r, s1) \<Longrightarrow> k \<noteq> propertyKey (name f) p \<Longrightarrow>
   map_of (propertyTypes s1) k = map_of (propertyTypes s) k"
  by (auto simp: generateFilterPropertyType_def Let_def update_conv' split: option.splits)

lemma Field_simps [simp]:
  "filterTypes (FieldDecorator r a s) = filterTypes s"
  "filterFullTypes (FieldDecorator r a s) = filterFullTypes s"
  "propertyTypes (FieldDecorator r a s) = propertyTypes s"
  "length (heap (FieldDecorator r a s)) = length (heap s)"
  by (simp_all add: FieldDecorator_def)

lemma Field_heap_other: "i \<noteq> r \<Longrightarrow> heap (FieldDecorator r a s) ! i = heap s ! i"
  by (simp add: FieldDecorator_def)

lemma Field_heap_same:
  "r < length (heap s) \<Longrightarrow>
   fieldMetadata (heap (FieldDecorator r a s) ! r) = fieldMetadata (heap s ! r) @ [a]"
  by (simp add: FieldDecorator_def)

lemma addFields_caches:
  "filterTypes (addFields c reg p r ps s) = filterTypes s \<and>
   filterFullTypes (addFields c reg p r ps s) = filterFullTypes s"
proof (induction ps arbitrary: s)
  case Nil
  show ?case by simp
next
  case (Cons f ps)
  show ?case
  proof (cases "targetClassMetadata reg (typeFn f)")
    case None
    obtain ft s1 where g: "generateFilterPropertyType c f p s = (ft, s1)"
      by (cases "generateFilterPropertyType c f p s")
    from gfpt_filterTypes [OF g] Cons.IH [of "FieldDecorator r (fieldAttribute f ft) s1"] None g
    show ?thesis by simp
  next
    case (Some m)
    with Cons.IH [of s] show ?thesis by simp
  qed
qed

lemma addFields_heap:
  "length (heap s) \<le> length (heap (addFields c reg p r ps s)) \<and>
   (\<forall>i < length (heap s). i \<noteq> r \<longrightarrow> heap (addFields c reg p r ps s) ! i = heap s ! i)"
proof (induction ps arbitrary: s)
  case Nil
  show ?case by simp
next
  case (Cons f ps)
  show ?case
  proof (cases "targetClassMetadata reg (typeFn f)")
    case None
    obtain ft s1 where g: "generateFilterPropertyType c f p s = (ft, s1)"
      by (cases "generateFilterPropertyType c f p s")
    from gfpt_heap [OF g] Cons.IH [of "FieldDecorator r (fieldAttribute f ft) s1"] None g
    show ?thesis by (auto simp: Field_heap_other)
  next
    case (Some m)
    with Cons.IH [of s] show ?thesis by simp
  qed
qed

lemma addFields_mono:
  "map_of (propertyTypes s) k = Some v \<Longrightarrow>
   map_of (propertyTypes (addFields c reg p r ps s)) k = Some v"
proof (induction ps arbitrary: s)
  case Nil
  then show ?case by simp
next
  case (Cons f ps)
  show ?case
  proof (cases "targetClassMetadata reg (typeFn f)")
    case None
    obtain ft s1 where g: "generateFilterPropertyType c f p s = (ft, s1)"
      by (cases "generateFilterPropertyType c f p s")
    from gfpt_mono [OF g Cons.prems] Cons.IH [of "FieldDecorator r (fieldAttribute f ft) s1"] None g
    show ?thesis by simp
  next
    case (Some m)
    with Cons.IH [of s] Cons.prems show ?thesis by simp
  qed
qed

lemma addFields_fields:
  "r < length (heap s) \<Longrightarrow>
   fieldMetadata (heap (addFields c reg p r ps s) ! r) =
     fieldMetadata (heap s ! r)
     @ map (\<lambda>f. fieldAttribute f
                  (the (map_of (propertyTypes (addFields c reg p r ps s)) (propertyKey (name f) p))))
           (filter (\<lambda>f. targetClassMetadata reg (typeFn f) = None) ps)"
proof (induction ps arbitrary: s)
  case Nil
  then show ?case by simp
next
  case (Cons f ps)
  show ?case
  proof (cases "targetClassMetadata reg (typeFn f)")
    case None
    obtain ft s1 where g: "generateFilterPropertyType c f p s = (ft, s1)"
      by (cases "generateFilterPropertyType c f p s")
    let ?s2 = "FieldDecorator r (fieldAttribute f ft) s1"
    let ?s' = "addFields c reg p r ps ?s2"
    have r1: "r < length (heap s1)" and same: "heap s1 ! r = heap s ! r"
      using gfpt_heap [OF g] Cons.prems by auto
    have step: "addFields c reg p r (f # ps) s = ?s'"
      using None g by simp
    have "map_of (propertyTypes ?s2) (propertyKey (name f) p) = Some ft"
      using gfpt_cached [OF g] by simp
    then have final: "map_of (propertyTypes ?s') (propertyKey (name f) p) = Some ft"
      by (rule addFields_mono)
    have "fieldMetadata (heap ?s2 ! r) = fieldMetadata (heap s ! r) @ [fieldAttribute f ft]"
      using Field_heap_same [OF r1] same by simp
    moreover have "r < length (heap ?s2)" using r1 by simp
    ultimately show ?thesis
      unfolding step using Cons.IH [of ?s2] None final by simp
  next
    case (Some m)
    with Cons.IH [of s] Cons.prems show ?thesis by simp
  qed
qed

lemma addFields_first:
  "map_of (propertyTypes s) (propertyKey x p) = None \<Longrightarrow>
   find (\<lambda>f. name f = x \<and> targetClassMetadata reg (typeFn f) = None) ps = Some f \<Longrightarrow>
   r < length (heap s) \<Longrightarrow>
   \<exists>rx. map_of (propertyTypes (addFields c reg p r ps s)) (propertyKey x p) = Some rx \<and>
        length (heap s) \<le> rx \<and> rx < length (heap (addFields c reg p r ps s)) \<and>
        heap (addFields c reg p r ps s) ! rx = PropertyFilter c f (propertyKey x p)"
proof (induction ps arbitrary: s)
  case Nil
  then show ?case by simp
next
  case (Cons g ps)
  show ?case
  proof (cases "targetClassMetadata reg (typeFn g)")
    case (Some m)
    with Cons.prems have "find (\<lambda>f. name f = x \<and> targetClassMetadata reg (typeFn f) = None) ps = Some f"
      by simp
    from Cons.IH [OF Cons.prems(1) this Cons.prems(3)] Some show ?thesis by simp
  next
    case None
    obtain ft s1 where g: "generateFilterPropertyType c g p s = (ft, s1)"
      by (cases "generateFilterPropertyType c g p s")
    let ?s2 = "FieldDecorator r (fieldAttribute g ft) s1"
    let ?s' = "addFields c reg p r ps ?s2"
    have step: "addFields c reg p r (g # ps) s = ?s'"
      using None g by simp
    have len: "length (heap s) \<le> length (heap s1)"
      using gfpt_heap [OF g] by simp
    show ?thesis
    proof (cases "name g = x")
      case True
      with None Cons.prems(2) have fg: "f = g" by simp
      from Cons.prems(1) True
      have miss: "map_of (propertyTypes s) (propertyKey (name g) p) = None" by simp
      from g gfpt_miss [OF miss, of c]
      have ft: "ft = length (heap s)"
        and s1: "s1 = s\<lparr>heap := heap s @ [PropertyFilter c g (propertyKey (name g) p)],
                        propertyTypes := AList.update (propertyKey (name g) p) (length (heap s))
                                           (propertyTypes s)\<rparr>"
        by auto
      have neq: "ft \<noteq> r" using ft Cons.prems(3) by simp
      have ftlt: "ft < length (heap ?s2)" using ft s1 by simp
      have obj: "heap ?s2 ! ft = PropertyFilter c g (propertyKey x p)"
        using neq ft s1 True by (simp add: Field_heap_other)
      have "map_of (propertyTypes ?s2) (propertyKey x p) = Some ft"
        using gfpt_cached [OF g] True by simp
      then have c': "map_of (propertyTypes ?s') (propertyKey x p) = Some ft"
        by (rule addFields_mono)
      from addFields_heap [of ?s2 c reg p r ps] ftlt neq obj
      have "ft < length (heap ?s')" and "heap ?s' ! ft = PropertyFilter c g (propertyKey x p)"
        by auto
      with c' ft fg show ?thesis unfolding step by auto
    next
      case False
      with Cons.prems(2)
      have fnd: "find (\<lambda>f. name f = x \<and> targetClassMetadata reg (typeFn f) = None) ps = Some f"
        by simp
      have "propertyKey x p \<noteq> propertyKey (name g) p" using False by simp
      from gfpt_other_key [OF g this] Cons.prems(1)
      have miss: "map_of (propertyTypes ?s2) (propertyKey x p) = None" by simp
      have "r < length (heap ?s2)" using len Cons.prems(3) by simp
      from Cons.IH [OF miss fnd this] len show ?thesis unfolding step by auto
    qed
  qed
qed

lemma update_fresh: "map_of m k = None \<Longrightarrow> AList.update k v m = m @ [(k, v)]"
  by (induction m) (auto split: if_splits)

lemma cachePlaceholder_simps:
  "cachePlaceholder key s =
     (length (heap s),
      s\<lparr>heap := heap s @ [PartialObjectType key],
        filterTypes := AList.update key (length (heap s)) (filterTypes s)\<rparr>)"
  by (simp add: cachePlaceholder_def Let_def)

lemma gfit_hit:
  "map_of (filterTypes s) (filterKey classes) = Some r \<Longrightarrow>
   generateFilterInputType c reg classes s = (Inr r, s)"
  by (simp add: generateFilterInputType_def)

lemma gfit_cached:
  "generateFilterInputType c reg classes s = (res, s1) \<Longrightarrow>
   \<exists>r. map_of (filterTypes s1) (filterKey classes) = Some r \<and> (\<forall>r1. res = Inr r1 \<longrightarrow> r1 = r)"
  by (auto simp: generateFilterInputType_def cachePlaceholder_simps addFields_caches update_conv'
           split: option.splits sum.splits)


lemma filterTypesOk_inj:
  "filterTypesOk s \<Longrightarrow> map_of (filterTypes s) k = Some r \<Longrightarrow>
   map_of (filterTypes s) k' = Some r \<Longrightarrow> k = k'"
proof -
  assume ok: "filterTypesOk s" and a: "map_of (filterTypes s) k = Some r"
    and b: "map_of (filterTypes s) k' = Some r"
  have d: "distinct (map snd (filterTypes s))" using ok by (simp add: filterTypesOk_def)
  have "(k, r) \<in> set (filterTypes s)" "(k', r) \<in> set (filterTypes s)"
    using a b by (auto dest: map_of_SomeD)
  with d show "k = k'"
    by (metis distinct_map inj_on_def snd_conv fst_conv)
qed

lemma filterTypesOk_grow:
  "filterTypesOk s \<Longrightarrow> filterTypes s' = filterTypes s \<Longrightarrow>
   length (heap s) \<le> length (heap s') \<Longrightarrow> filterTypesOk s'"
  by (auto simp: filterTypesOk_def list_all_iff)

lemma filterTypesOk_placeholder:
  "filterTypesOk s \<Longrightarrow> map_of (filterTypes s) key = None \<Longrightarrow>
   filterTypesOk (snd (cachePlaceholder key s))"
  by (auto simp: filterTypesOk_def list_all_iff cachePlaceholder_simps update_fresh)

lemma gfit_ok:
  "filterTypesOk s \<Longrightarrow> generateFilterInputType c reg classes s = (res, s1) \<Longrightarrow> filterTypesOk s1"
proof (cases "map_of (filterTypes s) (filterKey classes)")
  case (Some r)
  assume "filterTypesOk s" "generateFilterInputType c reg classes s = (res, s1)"
  with Some show ?thesis by (simp add: gfit_hit)
next
  case None
  assume ok: "filterTypesOk s" and g: "generateFilterInputType c reg classes s = (res, s1)"
  let ?p = "snd (cachePlaceholder (filterKey classes) s)"
  have okp: "filterTypesOk ?p" using ok None by (rule filterTypesOk_placeholder)
  show ?thesis
  proof (cases "collectProperties reg classes []")
    case (Inl e)
    with g None have "s1 = ?p"
      by (simp add: generateFilterInputType_def cachePlaceholder_simps)
    with okp show ?thesis by simp
  next
    case (Inr props)
    with g None
    have s1: "s1 = addFields c reg (concatNames classes) (length (heap s)) props ?p"
      by (simp add: generateFilterInputType_def cachePlaceholder_simps)
    show ?thesis
      using okp addFields_caches [of c reg "concatNames classes" "length (heap s)" props ?p]
        addFields_heap [of ?p c reg "concatNames classes" "length (heap s)" props]
      unfolding s1 by (blast intro: filterTypesOk_grow)
  qed
qed

lemma operationType_cases:
  "operationType t op =
     (if op = Op_in \<or> op = Op_between \<or> op = Op_notbetween then GList t
      else if op = Op_null then GBoolean else t)"
  by (cases op) (simp_all add: operationType_def arrayLikeOperations_def)

lemma gfit_miss:
  "map_of (filterTypes s) (filterKey classes) = None \<Longrightarrow>
   generateFilterInputType c reg classes s =
     (case collectProperties reg classes [] of
        Inl e \<Rightarrow> (Inl e, snd (cachePlaceholder (filterKey classes) s))
      | Inr props \<Rightarrow>
          (Inr (length (heap s)),
           addFields c reg (concatNames classes) (length (heap s)) props
             (snd (cachePlaceholder (filterKey classes) s))))"
  by (simp add: generateFilterInputType_def cachePlaceholder_simps split: sum.splits)

lemma gfit_mono:
  "generateFilterInputType c reg classes s = (res, s1) \<Longrightarrow>
   map_of (filterTypes s) k = Some v \<Longrightarrow> map_of (filterTypes s1) k = Some v"
  by (auto simp: generateFilterInputType_def cachePlaceholder_simps addFields_caches update_conv'
           split: option.splits sum.splits)

lemma filterKey_eq [simp]:
  "filterKey classes' = filterKey classes \<longleftrightarrow> concatNames classes' = concatNames classes"
  by (simp add: filterKey_def)



lemma gffit_hit:
  "map_of (filterFullTypes s) (whereKey classes) = Some r \<Longrightarrow>
   getFilterFullInputType c reg classes s = (Inr r, s)"
  by (simp add: getFilterFullInputType_def)

lemma gffit_miss:
  "map_of (filterFullTypes s) (whereKey classes) = None \<Longrightarrow>
   generateFilterInputType c reg classes s = (Inr ft, s1) \<Longrightarrow>
   getFilterFullInputType c reg classes s =
     (Inr (length (heap s1)),
      s1\<lparr>heap := heap s1 @ [EntityWhereInput c (whereKey classes) ft],
         filterFullTypes := AList.update (whereKey classes) (length (heap s1))
                              (filterFullTypes s1)\<rparr>)"
  by (simp add: getFilterFullInputType_def Let_def)


lemma foldl_customFields:
  "foldl (\<lambda>acc x. if filterInputType x then acc @ f x else acc) acc classes =
   acc @ concat (map (\<lambda>x. if filterInputType x then f x else []) classes)"
  by (induction classes arbitrary: acc) auto

lemma customFieldsOf_concat:
  "customFieldsOf classes =
     concat (map (\<lambda>x. if filterInputType x
                       then map (\<lambda>field. \<lparr>cf_name = fm_name field, cf_typeFn = fm_typeFn field,
                                           sqlExp = fm_sqlExp field\<rparr>) (getFields x)
                       else []) classes)"
  unfolding customFieldsOf_def by (simp add: foldl_customFields)

lemma find_conj:
  "find P xs = Some x \<Longrightarrow> Q x \<Longrightarrow> find (\<lambda>y. P y \<and> Q y) xs = Some x"
  by (induction xs) (auto split: if_splits)

lemma find_map: "find P (map g xs) = map_option g (find (\<lambda>y. P (g y)) xs)"
  by (induction xs) auto

lemma find_SomeD: "find P xs = Some x \<Longrightarrow> x \<in> set xs \<and> P x"
  by (induction xs) (auto split: if_splits)

lemma gfit_first_declaration:
  assumes "map_of (filterTypes s) (filterKey classes) = None"
    and "collectProperties reg classes [] = Inr props"
    and "find (\<lambda>f. name f = x \<and> targetClassMetadata reg (typeFn f) = None) props = Some f"
    and "map_of (propertyTypes s) (propertyKey x (concatNames classes)) = None"
    and "generateFilterInputType c reg classes s = (res, s1)"
  shows "\<exists>rx. res = Inr (length (heap s)) \<and> length (heap s) < rx \<and> rx < length (heap s1) \<and>
           map_of (propertyTypes s1) (propertyKey x (concatNames classes)) = Some rx \<and>
           heap s1 ! rx = PropertyFilter c f (propertyKey x (concatNames classes)) \<and>
           (\<exists>a \<in> set (fieldMetadata (heap s1 ! length (heap s))). attr_name a = x) \<and>
           (\<forall>a \<in> set (fieldMetadata (heap s1 ! length (heap s))).
              attr_name a = x \<longrightarrow>
              a = \<lparr>attr_name = x, attr_type = GGenerated rx,
                   attr_options = [(''nullable'', JsBool True)]\<rparr>)"
proof -
  let ?p = "snd (cachePlaceholder (filterKey classes) s)"
  let ?r = "length (heap s)"
  let ?cn = "concatNames classes"
  from assms(1,2,5) have res: "res = Inr ?r"
    and s1: "s1 = addFields c reg ?cn ?r props ?p"
    by (auto simp: gfit_miss)
  have lt: "?r < length (heap ?p)" and empty: "fieldMetadata (heap ?p ! ?r) = []"
    and pt: "propertyTypes ?p = propertyTypes s" and len: "length (heap ?p) = Suc ?r"
    by (simp_all add: cachePlaceholder_simps PartialObjectType_def)
  from assms(4) pt have miss: "map_of (propertyTypes ?p) (propertyKey x ?cn) = None" by simp
  from addFields_first [OF miss assms(3) lt, of c] obtain rx
    where rx: "map_of (propertyTypes s1) (propertyKey x ?cn) = Some rx"
      and ge: "length (heap ?p) \<le> rx" and rxlt: "rx < length (heap s1)"
      and obj: "heap s1 ! rx = PropertyFilter c f (propertyKey x ?cn)"
    unfolding s1 by blast
  from addFields_fields [OF lt, of c reg ?cn props] empty
  have fm: "fieldMetadata (heap s1 ! ?r) =
           map (\<lambda>g. fieldAttribute g (the (map_of (propertyTypes s1) (propertyKey (name g) ?cn))))
               (filter (\<lambda>g. targetClassMetadata reg (typeFn g) = None) props)"
    by (simp add: s1)
  from find_SomeD [OF assms(3)]
  have f: "f \<in> set props" "name f = x" "targetClassMetadata reg (typeFn f) = None"
    by simp_all
  have ex: "\<exists>a \<in> set (fieldMetadata (heap s1 ! ?r)). attr_name a = x"
    unfolding fm using f by (auto simp: fieldAttribute_def)
  have all: "\<forall>a \<in> set (fieldMetadata (heap s1 ! ?r)).
              attr_name a = x \<longrightarrow>
              a = \<lparr>attr_name = x, attr_type = GGenerated rx,
                   attr_options = [(''nullable'', JsBool True)]\<rparr>"
    unfolding fm using rx by (auto simp: fieldAttribute_def)
  from res ge len rxlt rx obj ex all show ?thesis
    by (intro exI [of _ rx]) simp
qed

lemma PropertyFilter_signature:
  "map (\<lambda>a. (attr_name a, attr_type a)) (fieldMetadata (PropertyFilter c f k)) =
   map (\<lambda>op. (operationAttrName c op, operationType (typeFn f) op)) operationKeys"
  by (simp add: PropertyFilter_def operationAttribute_def comp_def)

lemma initialState_ok: "filterTypesOk initialState"
  by (simp add: filterTypesOk_def initialState_def)

lemma gffit_ok:
  assumes "filterTypesOk s"
    and "getFilterFullInputType c reg classes s = (res, s1)"
  shows "filterTypesOk s1"
proof (cases "map_of (filterFullTypes s) (whereKey classes)")
  case (Some r)
  with assms show ?thesis by (simp add: gffit_hit)
next
  case None
  obtain res0 s0 where g: "generateFilterInputType c reg classes s = (res0, s0)"
    by (cases "generateFilterInputType c reg classes s")
  have ok0: "filterTypesOk s0" using assms(1) g by (rule gfit_ok)
  show ?thesis
  proof (cases res0)
    case (Inl e)
    with assms(2) None g have "s1 = s0" by (simp add: getFilterFullInputType_def)
    with ok0 show ?thesis by simp
  next
    case (Inr ft)
    with g have "generateFilterInputType c reg classes s = (Inr ft, s0)" by simp
    from gffit_miss [OF None this] assms(2)
    have "filterTypes s1 = filterTypes s0" "length (heap s0) \<le> length (heap s1)"
      by auto
    with ok0 show ?thesis by (rule filterTypesOk_grow)
  qed
qed

lemma Filter_ok:
  "filterTypesOk s \<Longrightarrow> Filter c reg baseEntity opts s = (res, s1) \<Longrightarrow> filterTypesOk s1"
  by (auto simp: Filter_def split: prod.splits sum.splits dest: gffit_ok)




text \<open>
  Callbacks that call back only for groups whose key is already in \<open>filterTypes\<close>:
  every call returns and leaves \<open>filterTypes\<close> as it is.
\<close>

lemma andThen_simps [simp]:
  "andThen None k = None"
  "andThen (Some (Inl e, s)) k = Some (Inl e, s)"
  "andThen (Some (Inr x, s)) k = k x s"
  by (simp_all add: andThen_def)

lemma andThen_keeps:
  assumes "\<exists>x s1. m = Some (Inr x, s1) \<and> filterTypes s1 = F"
    and "\<And>x s1. filterTypes s1 = F \<Longrightarrow> \<exists>y s2. k x s1 = Some (Inr y, s2) \<and> filterTypes s2 = F"
  shows "\<exists>y s2. andThen m k = Some (Inr y, s2) \<and> filterTypes s2 = F"
  using assms by auto

lemma gfit_reentrant_hit:
  "map_of (filterTypes s) (filterKey classes) = Some r \<Longrightarrow>
   generateFilterInputType_reentrant reenter calls c reg classes s = Some (Inr r, s)"
  by (simp add: generateFilterInputType_reentrant_def)

lemma gffit_reentrant_cached:
  assumes "map_of (filterTypes s) (filterKey classes) = Some r"
  shows "\<exists>root s1. getFilterFullInputType_reentrant reenter calls c reg classes s
                     = Some (Inr root, s1) \<and> filterTypes s1 = filterTypes s"
  using gfit_reentrant_hit [OF assms, of reenter calls c reg]
  by (cases "map_of (filterFullTypes s) (whereKey classes)")
     (simp_all add: getFilterFullInputType_reentrant_def Let_def)

lemma runCalls_cached:
  assumes "\<forall>e \<in> set es. map_of F (filterKey (typeFunctions e)) = Some r"
    and "filterTypes s = F"
  shows "\<exists>u s1. runCalls (Filter_reentrant (Suc depth) calls c reg) es s = Some (Inr u, s1) \<and>
                filterTypes s1 = F"
  using assms
proof (induction es arbitrary: s)
  case Nil
  then show ?case by simp
next
  case (Cons e es)
  from Cons.prems have "map_of (filterTypes s) (filterKey (typeFunctions e)) = Some r"
    by simp
  from gffit_reentrant_cached [OF this, of "Filter_reentrant depth calls c reg" calls c reg]
  have first: "\<exists>root s1. Filter_reentrant (Suc depth) calls c reg e s = Some (Inr root, s1) \<and>
                         filterTypes s1 = F"
    using Cons.prems(2) by simp
  have rest: "\<exists>u s2. runCalls (Filter_reentrant (Suc depth) calls c reg) es s1 = Some (Inr u, s2) \<and>
                     filterTypes s2 = F" if "filterTypes s1 = F" for s1
    using Cons.IH [OF _ that] Cons.prems(1) by simp
  show ?case
    unfolding runCalls.simps using first rest by (rule andThen_keeps)
qed

lemma callTypeFn_cached:
  assumes "\<forall>e \<in> set (calls field). map_of F (filterKey (typeFunctions e)) = Some r"
    and "filterTypes s = F"
  shows "\<exists>t s1. callTypeFn (Filter_reentrant (Suc depth) calls c reg) calls field s
                  = Some (Inr t, s1) \<and> filterTypes s1 = F"
  unfolding callTypeFn_def
  using runCalls_cached [OF assms, of depth calls c reg]
  by (rule andThen_keeps) simp

lemma decorateOperations_cached:
  assumes "\<forall>e \<in> set (calls field). map_of F (filterKey (typeFunctions e)) = Some r"
    and "filterTypes s = F"
  shows "\<exists>u s1. decorateOperations (Filter_reentrant (Suc depth) calls c reg) calls c field p ops s
                  = Some (Inr u, s1) \<and> filterTypes s1 = F"
  using assms(2)
proof (induction ops arbitrary: s)
  case Nil
  then show ?case by simp
next
  case (Cons op ops)
  have rest: "\<exists>u s2. decorateOperations (Filter_reentrant (Suc depth) calls c reg) calls c field p ops
                       (FieldDecorator p (operationAttribute c field op) s1) = Some (Inr u, s2) \<and>
                     filterTypes s2 = F" if "filterTypes s1 = F" for s1
    using Cons.IH [of "FieldDecorator p (operationAttribute c field op) s1"] that by simp
  show ?case
    unfolding decorateOperations.simps
    using callTypeFn_cached [where calls = calls and field = field, OF assms(1) Cons.prems,
        of depth c reg] rest
    by (rule andThen_keeps)
qed

lemma defineName_caches [simp]:
  "filterTypes (defineName r key s) = filterTypes s"
  "filterFullTypes (defineName r key s) = filterFullTypes s"
  "propertyTypes (defineName r key s) = propertyTypes s"
  by (simp_all add: defineName_def)

lemma gfpt_reentrant_cached:
  assumes "\<forall>e \<in> set (calls field). map_of F (filterKey (typeFunctions e)) = Some r"
    and "filterTypes s = F"
  shows "\<exists>ft s1. generateFilterPropertyType_reentrant (Filter_reentrant (Suc depth) calls c reg)
                    calls c field parentName s = Some (Inr ft, s1) \<and> filterTypes s1 = F"
proof (cases "map_of (propertyTypes s) (propertyKey (name field) parentName)")
  case (Some ft)
  with assms(2) show ?thesis by (simp add: generateFilterPropertyType_reentrant_def)
next
  case None
  let ?key = "propertyKey (name field) parentName"
  let ?s0 = "s\<lparr>heap := heap s @ [emptyPropertyFilter ?key]\<rparr>"
  have d: "\<exists>u s1. decorateOperations (Filter_reentrant (Suc depth) calls c reg) calls c field
                       (length (heap s)) operationKeys ?s0 = Some (Inr u, s1) \<and>
                     filterTypes s1 = F"
    by (rule decorateOperations_cached [where calls = calls and field = field, OF assms(1)])
       (simp add: assms(2))
  have k: "\<exists>ft s2.
      (let s2 = defineName (length (heap s)) ?key s1
       in Some (Inr (length (heap s)),
                s2\<lparr>propertyTypes := AList.update ?key (length (heap s)) (propertyTypes s2)\<rparr>))
      = Some (Inr ft, s2) \<and> filterTypes s2 = F" if "filterTypes s1 = F" for u :: unit and s1
    using that by (simp add: Let_def)
  have "\<exists>ft s2.
      andThen (decorateOperations (Filter_reentrant (Suc depth) calls c reg) calls c field
                 (length (heap s)) operationKeys ?s0)
        (\<lambda>u s1. let s2 = defineName (length (heap s)) ?key s1
                 in Some (Inr (length (heap s)),
                          s2\<lparr>propertyTypes :=
                               AList.update ?key (length (heap s)) (propertyTypes s2)\<rparr>))
      = Some (Inr ft, s2) \<and> filterTypes s2 = F"
    using d k by (rule andThen_keeps)
  then show ?thesis
    using None by (simp add: generateFilterPropertyType_reentrant_def Let_def)
qed

lemma addFields_reentrant_cached:
  assumes "\<forall>field \<in> set props. \<forall>e \<in> set (calls field).
             map_of F (filterKey (typeFunctions e)) = Some r"
    and "filterTypes s = F"
  shows "\<exists>u s1. addFields_reentrant (Filter_reentrant (Suc depth) calls c reg) calls c reg
                   parentName p props s = Some (Inr u, s1) \<and> filterTypes s1 = F"
  using assms
proof (induction props arbitrary: s)
  case Nil
  then show ?case by simp
next
  case (Cons field rest)
  let ?R = "Filter_reentrant (Suc depth) calls c reg"
  from Cons.prems(1)
  have self: "\<forall>e \<in> set (calls field). map_of F (filterKey (typeFunctions e)) = Some r"
    and others: "\<forall>field \<in> set rest. \<forall>e \<in> set (calls field).
                   map_of F (filterKey (typeFunctions e)) = Some r"
    by simp_all
  have tail: "\<exists>u s2. addFields_reentrant ?R calls c reg parentName p rest s1 = Some (Inr u, s2) \<and>
                     filterTypes s2 = F" if "filterTypes s1 = F" for s1
    using Cons.IH [OF others that] .
  have decorated: "\<exists>u s4. addFields_reentrant ?R calls c reg parentName p rest
                      (FieldDecorator p (fieldAttribute field ft) s3) = Some (Inr u, s4) \<and>
                     filterTypes s4 = F" if "filterTypes s3 = F" for ft s3
    using tail [of "FieldDecorator p (fieldAttribute field ft) s3"] that by simp
  have generated: "\<exists>u s4. andThen (generateFilterPropertyType_reentrant ?R calls c field parentName s2)
                     (\<lambda>fieldType s3.
                        addFields_reentrant ?R calls c reg parentName p rest
                          (FieldDecorator p (fieldAttribute field fieldType) s3))
                     = Some (Inr u, s4) \<and> filterTypes s4 = F" if "filterTypes s2 = F" for s2
    using gfpt_reentrant_cached [where calls = calls and field = field, OF self that,
        of depth c reg parentName] decorated
    by (rule andThen_keeps)
  have second: "\<exists>u s4. andThen (callTypeFn ?R calls field s1)
                (\<lambda>t' s2.
                   andThen (generateFilterPropertyType_reentrant ?R calls c field parentName s2)
                     (\<lambda>fieldType s3.
                        addFields_reentrant ?R calls c reg parentName p rest
                          (FieldDecorator p (fieldAttribute field fieldType) s3)))
                = Some (Inr u, s4) \<and> filterTypes s4 = F" if "filterTypes s1 = F" for s1
    using callTypeFn_cached [where calls = calls and field = field, OF self that,
        of depth c reg] generated
    by (rule andThen_keeps)
  have body: "\<exists>u s4.
      (case targetClassMetadata reg t of
            Some targetMetadata \<Rightarrow> addFields_reentrant ?R calls c reg parentName p rest s1
          | None \<Rightarrow>
              andThen (callTypeFn ?R calls field s1)
                (\<lambda>t' s2.
                   andThen (generateFilterPropertyType_reentrant ?R calls c field parentName s2)
                     (\<lambda>fieldType s3.
                        addFields_reentrant ?R calls c reg parentName p rest
                          (FieldDecorator p (fieldAttribute field fieldType) s3))))
       = Some (Inr u, s4) \<and> filterTypes s4 = F" if "filterTypes s1 = F" for t s1
    using tail [OF that] second [OF that] by (cases "targetClassMetadata reg t") simp_all
  show ?case
    unfolding addFields_reentrant.simps
    using callTypeFn_cached [where calls = calls and field = field, OF self Cons.prems(2),
        of depth c reg] body
    by (rule andThen_keeps)
qed

text \<open>
  When no callback calls the module, the definitions with callbacks compute what the
  definitions without them compute, at every depth.
\<close>

lemma callTypeFn_no_calls:
  "callTypeFn reenter (\<lambda>field. []) field s = Some (Inr (typeFn field), s)"
  by (simp add: callTypeFn_def)

lemma decorateOperations_no_calls:
  "decorateOperations reenter (\<lambda>field. []) c field r ops s =
     Some (Inr (), foldl (\<lambda>s op. FieldDecorator r (operationAttribute c field op) s) s ops)"
  by (induction ops arbitrary: s) (simp_all add: callTypeFn_no_calls)

lemma decorations_on_last:
  "foldl (\<lambda>s op. FieldDecorator (length h) (operationAttribute c field op) s)
     (s\<lparr>heap := h @ [t]\<rparr>) ops =
   s\<lparr>heap := h @ [t\<lparr>fieldMetadata := fieldMetadata t @ map (operationAttribute c field) ops\<rparr>]\<rparr>"
  by (induction ops arbitrary: t) (simp_all add: FieldDecorator_def)

lemma gfpt_no_calls:
  "generateFilterPropertyType_reentrant reenter (\<lambda>field. []) c field parentName s =
     Some (Inr (fst (generateFilterPropertyType c field parentName s)),
           snd (generateFilterPropertyType c field parentName s))"
  by (simp add: generateFilterPropertyType_reentrant_def generateFilterPropertyType_def Let_def
        decorateOperations_no_calls decorations_on_last defineName_def emptyPropertyFilter_def
        PropertyFilter_def split: option.splits)

lemma addFields_no_calls:
  "addFields_reentrant reenter (\<lambda>field. []) c reg parentName r props s =
     Some (Inr (), addFields c reg parentName r props s)"
  by (induction props arbitrary: s)
     (simp_all add: callTypeFn_no_calls gfpt_no_calls split: option.splits prod.splits)

lemma gfit_no_calls:
  "generateFilterInputType_reentrant reenter (\<lambda>field. []) c reg classes s =
     Some (generateFilterInputType c reg classes s)"
  by (simp add: generateFilterInputType_reentrant_def generateFilterInputType_def
        addFields_no_calls split: option.splits prod.splits sum.splits)

lemma gffit_no_calls:
  "getFilterFullInputType_reentrant reenter (\<lambda>field. []) c reg classes s =
     Some (getFilterFullInputType c reg classes s)"
  by (simp add: getFilterFullInputType_reentrant_def getFilterFullInputType_def
        gfit_no_calls Let_def split: option.splits prod.splits sum.splits)

section \<open>The specification's statements\<close>

text \<open>
  C1. The specification: the generated field-predicate type has one optional attribute
  per operation, typed list-of-scalar for \<open>in\<close>, \<open>notin\<close>, \<open>between\<close> and
  \<open>notbetween\<close>, boolean for \<open>null\<close> and the field's scalar type for the others.
  Every attribute is there and nullable, but the code omits
  \<open>notin\<close> from \<open>arrayLikeOperations\<close>: for the field \<open>title\<close> of type \<open>String\<close>
  generated under the group \<open>Task\<close>, the attribute \<open>notin\<close> has the scalar type
  \<open>String\<close>, while \<open>in\<close>, \<open>between\<close> and \<open>notbetween\<close> have the list type.
\<close>

theorem C1_notin_attribute_is_scalar:
  "map (\<lambda>a. (attr_name a, attr_type a))
     (fieldMetadata
        (heap (snd (generateFilterPropertyType exampleConstants titleField ''Task'' initialState))
         ! fst (generateFilterPropertyType exampleConstants titleField ''Task'' initialState))) =
   [(''eq'', GString), (''neq'', GString), (''gt'', GString), (''gte'', GString),
    (''lt'', GString), (''lte'', GString), (''in'', GList GString), (''notin'', GString),
    (''like'', GString), (''notlike'', GString), (''between'', GList GString),
    (''notbetween'', GList GString), (''null'', GBoolean)]"
  by (simp add: model_defs example_defs)

text \<open>
  C2. The entity-filter-type generator is memoized by the concatenation of the entity
  names in the caller's order. After a call for a list, a call for any list with the same
  concatenation (the same list in particular) returns the cached class and changes
  nothing, and it is the class the first call returned. From a well-formed state, two
  lists whose concatenations differ get distinct classes. Lists of entities with distinct
  names in different orders are not always distinct groups, though; they are one group
  where the concatenations coincide: the entities named \<open>a\<close> and \<open>aa\<close> give the key
  \<open>aaa\<close> in both orders and share one class.
\<close>

theorem C2_memoized_by_concatenated_names:
  assumes "generateFilterInputType c reg classes s = (res, s1)"
  shows "(concatNames classes' = concatNames classes \<longrightarrow>
            (\<exists>r. generateFilterInputType c' reg' classes' s1 = (Inr r, s1) \<and>
                 (\<forall>r1. res = Inr r1 \<longrightarrow> r1 = r))) \<and>
         (filterTypesOk s \<and> concatNames classes' \<noteq> concatNames classes \<longrightarrow>
            (\<forall>r1 r2. res = Inr r1 \<and>
                     fst (generateFilterInputType c' reg' classes' s1) = Inr r2 \<longrightarrow> r1 \<noteq> r2))"
proof (intro conjI impI allI)
  assume same: "concatNames classes' = concatNames classes"
  from gfit_cached [OF assms] obtain r
    where r: "map_of (filterTypes s1) (filterKey classes) = Some r"
      and res: "\<forall>r1. res = Inr r1 \<longrightarrow> r1 = r" by blast
  from r same have "map_of (filterTypes s1) (filterKey classes') = Some r"
    by (simp add: filterKey_def)
  then have "generateFilterInputType c' reg' classes' s1 = (Inr r, s1)" by (rule gfit_hit)
  with res show "\<exists>r. generateFilterInputType c' reg' classes' s1 = (Inr r, s1) \<and>
                     (\<forall>r1. res = Inr r1 \<longrightarrow> r1 = r)" by blast
next
  fix r1 r2
  assume a: "filterTypesOk s \<and> concatNames classes' \<noteq> concatNames classes"
    and b: "res = Inr r1 \<and> fst (generateFilterInputType c' reg' classes' s1) = Inr r2"
  obtain res2 s2 where g2: "generateFilterInputType c' reg' classes' s1 = (res2, s2)"
    by (cases "generateFilterInputType c' reg' classes' s1")
  have ok2: "filterTypesOk s2"
    using a assms g2 by (blast intro: gfit_ok)
  from gfit_cached [OF assms] b
  have "map_of (filterTypes s1) (filterKey classes) = Some r1" by auto
  from gfit_mono [OF g2 this]
  have k1: "map_of (filterTypes s2) (filterKey classes) = Some r1" .
  from gfit_cached [OF g2] b g2
  have k2: "map_of (filterTypes s2) (filterKey classes') = Some r2" by auto
  show "r1 \<noteq> r2"
  proof
    assume "r1 = r2"
    with k1 k2 filterTypesOk_inj [OF ok2] have "filterKey classes = filterKey classes'"
      by blast
    with a show False by simp
  qed
qed

theorem C2_memoized_by_concatenated_names_witness:
  "generateFilterInputType exampleConstants exampleRegistry [EntityA, EntityB] initialState =
     (Inr 0, snd (generateFilterInputType exampleConstants exampleRegistry [EntityA, EntityB]
                    initialState)) \<and>
   concatNames [EntityA, EntityB] = concatNames [EntityA, EntityB] \<and>
   fst (generateFilterInputType exampleConstants exampleRegistry [EntityA, EntityB]
          (snd (generateFilterInputType exampleConstants exampleRegistry [EntityA, EntityB]
                  initialState))) = Inr 0 \<and>
   filterTypesOk initialState \<and>
   concatNames [EntityB, EntityA] \<noteq> concatNames [EntityA, EntityB] \<and>
   fst (generateFilterInputType exampleConstants exampleRegistry [EntityB, EntityA]
          (snd (generateFilterInputType exampleConstants exampleRegistry [EntityA, EntityB]
                  initialState))) \<noteq> Inr 0"
proof -
  let ?s1 = "snd (generateFilterInputType exampleConstants exampleRegistry [EntityA, EntityB]
                    initialState)"
  have g: "generateFilterInputType exampleConstants exampleRegistry [EntityA, EntityB]
             initialState = (Inr 0, ?s1)"
    by (simp add: model_defs example_defs)
  have ok: "filterTypesOk initialState"
    by (simp add: filterTypesOk_def initialState_def)
  have ne: "concatNames [EntityB, EntityA] \<noteq> concatNames [EntityA, EntityB]"
    by (simp add: concatNames_def example_defs)
  have eq: "concatNames [EntityA, EntityB] = concatNames [EntityA, EntityB]" by simp
  from C2_memoized_by_concatenated_names [OF g, of "[EntityA, EntityB]" exampleConstants
      exampleRegistry] eq
  have one: "fst (generateFilterInputType exampleConstants exampleRegistry [EntityA, EntityB]
                    ?s1) = Inr 0"
    by auto
  from C2_memoized_by_concatenated_names [OF g, of "[EntityB, EntityA]" exampleConstants
      exampleRegistry] ok ne
  have two: "fst (generateFilterInputType exampleConstants exampleRegistry [EntityB, EntityA]
                    ?s1) \<noteq> Inr 0"
    by auto
  from g ok ne one two show ?thesis by simp
qed

theorem C2_counterexample_reordered_lists_share_type:
  "cname Entity_a \<noteq> cname Entity_aa \<and>
   [Entity_a, Entity_aa] \<noteq> [Entity_aa, Entity_a] \<and>
   fst (generateFilterInputType exampleConstants exampleRegistry [Entity_a, Entity_aa]
          initialState) = Inr 0 \<and>
   fst (generateFilterInputType exampleConstants exampleRegistry [Entity_aa, Entity_a]
          (snd (generateFilterInputType exampleConstants exampleRegistry [Entity_a, Entity_aa]
                  initialState))) = Inr 0"
  by (simp add: model_defs example_defs)

text \<open>
  C3. With callbacks that call back only for the group being generated (a
  self-referential group): on a cache miss the class cached at line 99 is empty and is in
  the cache before any \<^verbatim>\<open>typeFn\<close> runs; a call for the group's key made while the
  fields are resolved, while \<open>filterTypes\<close> is as line 99 left it, returns that class
  and changes nothing; and the generation returns, at every depth of nesting allowed to
  the callbacks, with that same class, and leaves in \<open>filterTypes\<close> the one entry of
  line 99, so no callback has generated the group a second time.
\<close>

theorem C3_placeholder_cached_before_fields:
  assumes "map_of (filterTypes s) (filterKey classes) = None"
    and "collectProperties reg classes [] = Inr props"
    and "\<forall>field \<in> set props. \<forall>e \<in> set (calls field).
           concatNames (typeFunctions e) = concatNames classes"
  shows "fieldMetadata (heap (snd (cachePlaceholder (filterKey classes) s)) ! length (heap s))
           = [] \<and>
         map_of (filterTypes (snd (cachePlaceholder (filterKey classes) s))) (filterKey classes)
           = Some (length (heap s)) \<and>
         (\<forall>e s2. concatNames (typeFunctions e) = concatNames classes \<and>
                 filterTypes s2 = filterTypes (snd (cachePlaceholder (filterKey classes) s)) \<longrightarrow>
                 generateFilterInputType_reentrant reenter' calls' c' reg' (typeFunctions e) s2
                   = Some (Inr (length (heap s)), s2)) \<and>
         (\<exists>s'. generateFilterInputType_reentrant (Filter_reentrant (Suc depth) calls c reg)
                  calls c reg classes s = Some (Inr (length (heap s)), s') \<and>
               filterTypes s' =
                 AList.update (filterKey classes) (length (heap s)) (filterTypes s))"
proof -
  let ?r = "length (heap s)"
  let ?s1 = "snd (cachePlaceholder (filterKey classes) s)"
  let ?F = "AList.update (filterKey classes) ?r (filterTypes s)"
  have empty: "fieldMetadata (heap ?s1 ! ?r) = []"
    by (simp add: cachePlaceholder_simps PartialObjectType_def)
  have F: "filterTypes ?s1 = ?F"
    by (simp add: cachePlaceholder_simps)
  have cached: "map_of ?F (filterKey classes) = Some ?r"
    by (simp add: update_conv')
  have hit: "generateFilterInputType_reentrant reenter' calls' c' reg' (typeFunctions e) s2
               = Some (Inr ?r, s2)"
    if "concatNames (typeFunctions e) = concatNames classes" and "filterTypes s2 = filterTypes ?s1"
    for e s2
    using that F cached by (intro gfit_reentrant_hit) (simp add: filterKey_def)
  have self: "\<forall>field \<in> set props. \<forall>e \<in> set (calls field).
                map_of ?F (filterKey (typeFunctions e)) = Some ?r"
    using assms(3) cached by (simp add: filterKey_def)
  from addFields_reentrant_cached [OF self F, of depth c reg "concatNames classes" ?r]
  obtain u s' where run: "addFields_reentrant (Filter_reentrant (Suc depth) calls c reg) calls c reg
                            (concatNames classes) ?r props ?s1 = Some (Inr u, s')"
    and keep: "filterTypes s' = ?F"
    by blast
  have whole: "generateFilterInputType_reentrant (Filter_reentrant (Suc depth) calls c reg)
                 calls c reg classes s = Some (Inr ?r, s')"
    using assms(1,2) run
    by (simp add: generateFilterInputType_reentrant_def cachePlaceholder_simps)
  from empty F cached hit whole keep show ?thesis by auto
qed

theorem C3_placeholder_cached_before_fields_witness:
  "map_of (filterTypes initialState) (filterKey [Task]) = None \<and>
   collectProperties exampleRegistry [Task] [] = Inr [titleField, doneField, parentField] \<and>
   selfCalls titleField = [Single Task] \<and> selfCalls doneField = [] \<and>
   selfCalls parentField = [] \<and>
   concatNames (typeFunctions (Single Task)) = concatNames [Task] \<and>
   map_option fst
     (generateFilterInputType_reentrant
        (Filter_reentrant (Suc 0) selfCalls exampleConstants exampleRegistry)
        selfCalls exampleConstants exampleRegistry [Task] initialState) = Some (Inr 0) \<and>
   map_option (\<lambda>out. filterTypes (snd out))
     (generateFilterInputType_reentrant
        (Filter_reentrant (Suc 0) selfCalls exampleConstants exampleRegistry)
        selfCalls exampleConstants exampleRegistry [Task] initialState) =
     Some [(''TaskPropertyFilterType'', 0)]"
proof -
  have miss: "map_of (filterTypes initialState) (filterKey [Task]) = None"
    by (simp add: initialState_def)
  have props: "collectProperties exampleRegistry [Task] [] =
                 Inr [titleField, doneField, parentField]"
    by (simp add: example_defs inheritedType_def prepareEntity_def compileMetadata_def)
  have c1: "selfCalls titleField = [Single Task]"
    and c2: "selfCalls doneField = []" and c3: "selfCalls parentField = []"
    by (simp_all add: selfCalls_def titleField_def doneField_def parentField_def)
  have same: "concatNames (typeFunctions (Single Task)) = concatNames [Task]" by simp
  have self: "\<forall>field \<in> set [titleField, doneField, parentField]. \<forall>e \<in> set (selfCalls field).
                concatNames (typeFunctions e) = concatNames [Task]"
    using c1 c2 c3 by simp
  have h0: "length (heap initialState) = 0" and f0: "filterTypes initialState = []"
    by (simp_all add: initialState_def)
  note T = C3_placeholder_cached_before_fields [OF miss props self, of _ _ _ _ 0 exampleConstants,
      unfolded h0 f0]
  from T obtain s' where
    run: "generateFilterInputType_reentrant
            (Filter_reentrant (Suc 0) selfCalls exampleConstants exampleRegistry)
            selfCalls exampleConstants exampleRegistry [Task] initialState = Some (Inr 0, s')"
    and keep: "filterTypes s' = AList.update (filterKey [Task]) 0 []"
    by blast
  from keep have keep': "filterTypes s' = [(''TaskPropertyFilterType'', 0)]"
    by (simp add: filterKey_def concatNames_def PropertyFilterType_def Task_def plainEntity_def)
  from miss props c1 c2 c3 same run keep' show ?thesis by simp
qed




text \<open>
  C5. On a cache miss with every field list resolved, the class gets one \<open>Field\<close>
  decoration for each field whose \<open>typeFn\<close> is not a class with object-type metadata,
  in order, and none for a field whose \<open>typeFn\<close> is such a class. So when a
  relation-valued field shares its name with no other kind of field of the group, the
  class has no attribute of that name.
\<close>

theorem C5_relation_fields_skipped:
  assumes "map_of (filterTypes s) (filterKey classes) = None"
    and "collectProperties reg classes [] = Inr props"
    and "generateFilterInputType c reg classes s = (res, s1)"
  shows "res = Inr (length (heap s)) \<and>
         fieldMetadata (heap s1 ! length (heap s)) =
           map (\<lambda>f. fieldAttribute f
                  (the (map_of (propertyTypes s1) (propertyKey (name f) (concatNames classes)))))
               (filter (\<lambda>f. targetClassMetadata reg (typeFn f) = None) props) \<and>
         (\<forall>f \<in> set props. \<forall>k m.
            typeFn f = GClass k \<and> getObjectTypeMetadataByTarget reg k = Some m \<and>
            (\<forall>g \<in> set props. name g = name f \<longrightarrow> targetClassMetadata reg (typeFn g) \<noteq> None)
            \<longrightarrow> name f \<notin> attr_name ` set (fieldMetadata (heap s1 ! length (heap s))))"
proof -
  let ?p = "snd (cachePlaceholder (filterKey classes) s)"
  let ?r = "length (heap s)"
  from assms have res: "res = Inr ?r"
    and s1: "s1 = addFields c reg (concatNames classes) ?r props ?p"
    by (auto simp: gfit_miss)
  have "?r < length (heap ?p)" and "fieldMetadata (heap ?p ! ?r) = []"
    by (simp_all add: cachePlaceholder_simps PartialObjectType_def)
  from addFields_fields [OF this(1), of c reg "concatNames classes" props] this(2)
  have fm: "fieldMetadata (heap s1 ! ?r) =
           map (\<lambda>f. fieldAttribute f
                  (the (map_of (propertyTypes s1) (propertyKey (name f) (concatNames classes)))))
               (filter (\<lambda>f. targetClassMetadata reg (typeFn f) = None) props)"
    by (simp add: s1)
  have names: "attr_name ` set (fieldMetadata (heap s1 ! ?r)) =
                 name ` {f \<in> set props. targetClassMetadata reg (typeFn f) = None}"
    unfolding fm by (auto simp: fieldAttribute_def image_iff)
  have "name f \<notin> attr_name ` set (fieldMetadata (heap s1 ! ?r))"
    if "f \<in> set props"
      and "\<forall>g \<in> set props. name g = name f \<longrightarrow> targetClassMetadata reg (typeFn g) \<noteq> None"
    for f
    unfolding names using that by auto
  with res fm show ?thesis by blast
qed

theorem C5_relation_fields_skipped_witness:
  "map_of (filterTypes initialState) (filterKey [Task]) = None \<and>
   collectProperties exampleRegistry [Task] [] = Inr [titleField, doneField, parentField] \<and>
   typeFn parentField = GClass 1 \<and>
   getObjectTypeMetadataByTarget exampleRegistry 1 \<noteq> None \<and>
   map attr_name
     (fieldMetadata
        (heap (snd (generateFilterInputType exampleConstants exampleRegistry [Task]
                      initialState)) ! 0)) = [''title'', ''done''] \<and>
   name parentField \<notin>
     attr_name `
       set (fieldMetadata
              (heap (snd (generateFilterInputType exampleConstants exampleRegistry [Task]
                            initialState)) ! 0))"
proof -
  let ?s1 = "snd (generateFilterInputType exampleConstants exampleRegistry [Task] initialState)"
  have miss: "map_of (filterTypes initialState) (filterKey [Task]) = None"
    by (simp add: initialState_def)
  have props: "collectProperties exampleRegistry [Task] [] =
                 Inr [titleField, doneField, parentField]"
    by (simp add: example_defs inheritedType_def prepareEntity_def compileMetadata_def)
  have g: "generateFilterInputType exampleConstants exampleRegistry [Task] initialState =
             (fst (generateFilterInputType exampleConstants exampleRegistry [Task] initialState),
              ?s1)"
    by simp
  have rel: "typeFn parentField = GClass 1 \<and>
             getObjectTypeMetadataByTarget exampleRegistry 1 =
               Some \<lparr>target = 1, target_name = ''Task'',
                     properties = Some [titleField, doneField, parentField]\<rparr>"
    by (simp add: example_defs)
  have only: "\<forall>g \<in> set [titleField, doneField, parentField].
                name g = name parentField \<longrightarrow>
                targetClassMetadata exampleRegistry (typeFn g) \<noteq> None"
    by (simp add: example_defs)
  have h0: "length (heap initialState) = 0" by (simp add: initialState_def)
  note T = C5_relation_fields_skipped [OF miss props g, unfolded h0]
  from T have "\<forall>f \<in> set [titleField, doneField, parentField]. \<forall>k m.
            typeFn f = GClass k \<and> getObjectTypeMetadataByTarget exampleRegistry k = Some m \<and>
            (\<forall>g \<in> set [titleField, doneField, parentField].
               name g = name f \<longrightarrow> targetClassMetadata exampleRegistry (typeFn g) \<noteq> None)
            \<longrightarrow> name f \<notin> attr_name ` set (fieldMetadata (heap ?s1 ! 0))"
    by (rule conjunct2 [THEN conjunct2])
  then have "\<forall>k m.
            typeFn parentField = GClass k \<and>
            getObjectTypeMetadataByTarget exampleRegistry k = Some m \<and>
            (\<forall>g \<in> set [titleField, doneField, parentField].
               name g = name parentField \<longrightarrow>
               targetClassMetadata exampleRegistry (typeFn g) \<noteq> None)
            \<longrightarrow> name parentField \<notin> attr_name ` set (fieldMetadata (heap ?s1 ! 0))"
    by (rule bspec) simp
  with rel only
  have a: "name parentField \<notin> attr_name ` set (fieldMetadata (heap ?s1 ! 0))"
    by blast
  from T
  have "fieldMetadata (heap ?s1 ! 0) =
           map (\<lambda>f. fieldAttribute f
                  (the (map_of (propertyTypes ?s1) (propertyKey (name f) (concatNames [Task])))))
               (filter (\<lambda>f. targetClassMetadata exampleRegistry (typeFn f) = None)
                  [titleField, doneField, parentField])"
    by (rule conjunct2 [THEN conjunct1])
  then have b: "map attr_name (fieldMetadata (heap ?s1 ! 0)) = [''title'', ''done'']"
    by (simp add: example_defs fieldAttribute_def)
  from miss props rel a b show ?thesis by simp
qed

text \<open>
  C6. The specification: for an entity without custom filter fields whose field list the
  registry cannot resolve, generation fails with an error that names the entity. The
  code has that error at line 124, but the library calls of lines 109--112 come before
  the guard: for \<open>Draft\<close>, a class without metadata, \<^verbatim>\<open>PartialType\<close> throws the
  library's own error and line 124 is not reached. The guard's error is the result only
  when the three calls return (\<open>lenientRegistry\<close>). In both cases the empty class
  cached at line 99 stays in the cache, and the next call for the group returns it
  instead of failing.
\<close>

theorem C6_guard_after_library_calls:
  "fst (generateFilterInputType exampleConstants exampleRegistry [Draft] initialState) =
     Inl (UnableToFindFieldsError ''Draft'') \<and>
   generateFilterInputType exampleConstants exampleRegistry [Draft]
     (snd (generateFilterInputType exampleConstants exampleRegistry [Draft] initialState)) =
     (Inr 0, snd (generateFilterInputType exampleConstants exampleRegistry [Draft] initialState))
   \<and>
   fieldMetadata
     (heap (snd (generateFilterInputType exampleConstants exampleRegistry [Draft] initialState))
      ! 0) = [] \<and>
   fst (generateFilterInputType exampleConstants lenientRegistry [Draft] initialState) =
     Inl (Error (''DTO Draft hasn'' @ [CHR 0x27] @ ''t been initialized yet'')) \<and>
   generateFilterInputType exampleConstants lenientRegistry [Draft]
     (snd (generateFilterInputType exampleConstants lenientRegistry [Draft] initialState)) =
     (Inr 0, snd (generateFilterInputType exampleConstants lenientRegistry [Draft] initialState))"
  by (simp add: model_defs example_defs)



text \<open>
  C8. When \<open>Filter\<close> returns its decorator, the root filter type came from
  \<open>getFilterFullInputType\<close> on the entity or entities of \<open>baseEntity()\<close>. Applied to a
  parameter position, the decorator registers with \<open>Args\<close> one nullable argument of that
  type with the empty object as default value, named \<open>where\<close> when there are no options
  or no \<open>name\<close> in them (or an empty one) and named \<open>options.name\<close> otherwise; and it
  defines under \<open>FILTER_DECORATOR_CUSTOM_FIELDS_METADATA_KEY\<close>, on the target and
  property of the parameter, the list of \<open>{name, typeFn, sqlExp}\<close> of the custom fields
  of the entities whose prototype has \<open>filterInputType\<close>, in the order of the entities
  and of their fields.
\<close>

theorem C8_filter_registration:
  assumes "Filter c reg baseEntity opts s = (Inr decorator, s1)"
  shows "\<exists>root.
           getFilterFullInputType c reg (typeFunctions baseEntity) s = (Inr root, s1) \<and>
           registeredArgs (decorator (tgt, propertyName, paramIndex) h) =
             registeredArgs h
             @ [((tgt, propertyName, paramIndex),
                 \<lparr>arg_name = argumentName opts, arg_nullable = True,
                  arg_defaultValue = JsObject [], arg_type = root\<rparr>)] \<and>
           argumentName None = ''where'' \<and>
           argumentName (Some \<lparr>param_name = None\<rparr>) = ''where'' \<and>
           argumentName (Some \<lparr>param_name = Some []\<rparr>) = ''where'' \<and>
           (\<forall>n. n \<noteq> [] \<longrightarrow> argumentName (Some \<lparr>param_name = Some n\<rparr>) = n) \<and>
           map_of (definedMetadata (decorator (tgt, propertyName, paramIndex) h))
             (FILTER_DECORATOR_CUSTOM_FIELDS_METADATA_KEY c, tgt, propertyName) =
           Some (concat
                   (map (\<lambda>x. if filterInputType x
                              then map (\<lambda>field. \<lparr>cf_name = fm_name field,
                                                  cf_typeFn = fm_typeFn field,
                                                  sqlExp = fm_sqlExp field\<rparr>) (getFields x)
                              else [])
                      (typeFunctions baseEntity)))"
proof -
  from assms obtain root
    where g: "getFilterFullInputType c reg (typeFunctions baseEntity) s = (Inr root, s1)"
      and d: "decorator =
                parameterDecorator c (customFieldsOf (typeFunctions baseEntity)) opts root"
    by (auto simp: Filter_def split: prod.splits sum.splits)
  have names: "argumentName None = ''where''"
    "argumentName (Some \<lparr>param_name = None\<rparr>) = ''where''"
    "argumentName (Some \<lparr>param_name = Some []\<rparr>) = ''where''"
    "\<forall>n. n \<noteq> [] \<longrightarrow> argumentName (Some \<lparr>param_name = Some n\<rparr>) = n"
    by (simp_all add: argumentName_def)
  have args: "registeredArgs (decorator (tgt, propertyName, paramIndex) h) =
             registeredArgs h
             @ [((tgt, propertyName, paramIndex),
                 \<lparr>arg_name = argumentName opts, arg_nullable = True,
                  arg_defaultValue = JsObject [], arg_type = root\<rparr>)]"
    by (simp add: d parameterDecorator_def)
  have meta: "map_of (definedMetadata (decorator (tgt, propertyName, paramIndex) h))
             (FILTER_DECORATOR_CUSTOM_FIELDS_METADATA_KEY c, tgt, propertyName) =
             Some (customFieldsOf (typeFunctions baseEntity))"
    by (simp add: d parameterDecorator_def update_conv')
  from g names args meta show ?thesis
    unfolding customFieldsOf_concat by blast
qed

theorem C8_filter_registration_witness:
  "Filter exampleConstants exampleRegistry (Many [Task, User])
     (Some \<lparr>param_name = Some ''filter''\<rparr>) initialState =
   (Inr (projr (fst (Filter exampleConstants exampleRegistry (Many [Task, User])
                       (Some \<lparr>param_name = Some ''filter''\<rparr>) initialState))),
    snd (Filter exampleConstants exampleRegistry (Many [Task, User])
           (Some \<lparr>param_name = Some ''filter''\<rparr>) initialState)) \<and>
   registeredArgs
     (projr (fst (Filter exampleConstants exampleRegistry (Many [Task, User])
                    (Some \<lparr>param_name = Some ''filter''\<rparr>) initialState))
        (7, ''tasks'', 0) initialHost) =
     [((7, ''tasks'', 0),
       \<lparr>arg_name = ''filter'', arg_nullable = True, arg_defaultValue = JsObject [],
        arg_type = 4\<rparr>)] \<and>
   map_of
     (definedMetadata
        (projr (fst (Filter exampleConstants exampleRegistry (Many [Task, User])
                       (Some \<lparr>param_name = Some ''filter''\<rparr>) initialState))
           (7, ''tasks'', 0) initialHost))
     (''FilterCustomFields'', 7, ''tasks'') =
     Some [\<lparr>cf_name = ''fullName'', cf_typeFn = GString,
            sqlExp = ''concat(fname,'' @ [CHR 0x27] @ '' '' @ [CHR 0x27] @ '',lname)''\<rparr>]"
proof -
  let ?F = "Filter exampleConstants exampleRegistry (Many [Task, User])
              (Some \<lparr>param_name = Some ''filter''\<rparr>) initialState"
  have r: "getFilterFullInputType exampleConstants exampleRegistry
             (typeFunctions (Many [Task, User])) initialState =
           (Inr 4, snd (getFilterFullInputType exampleConstants exampleRegistry
                          (typeFunctions (Many [Task, User])) initialState))"
    by (simp add: model_defs example_defs)
  have f: "?F = (Inr (projr (fst ?F)), snd ?F)"
    unfolding Filter_def by (subst (1 2 3) r) simp
  note T = C8_filter_registration [OF f, of 7 "''tasks''" 0 initialHost]
  from T r
  have a: "registeredArgs (projr (fst ?F) (7, ''tasks'', 0) initialHost) =
        [((7, ''tasks'', 0),
          \<lparr>arg_name = ''filter'', arg_nullable = True, arg_defaultValue = JsObject [],
           arg_type = 4\<rparr>)]"
    by (auto simp: initialHost_def)
  from T
  have b: "map_of (definedMetadata (projr (fst ?F) (7, ''tasks'', 0) initialHost))
        (''FilterCustomFields'', 7, ''tasks'') =
        Some [\<lparr>cf_name = ''fullName'', cf_typeFn = GString,
               sqlExp = ''concat(fname,'' @ [CHR 0x27] @ '' '' @ [CHR 0x27] @ '',lname)''\<rparr>]"
    by (auto simp: example_defs)
  from f a b show ?thesis by (intro conjI)
qed

text \<open>
  C9. The specification counts twelve operation attributes; the enum has thirteen
  operations and the generated type has thirteen attributes. For an entity whose custom filter fields
  are \<open>fs\<close>, registered alone through \<open>Filter\<close> from a state without the three
  cache entries, and a custom field \<open>x\<close> of \<open>fs\<close> (the first of its name, its type not
  a class with object-type metadata): \<open>Filter\<close> returns its decorator; the
  field-predicate type cached for \<open>x\<close> has the same thirteen attribute names and value
  types as the type of any column-backed field with the same \<open>typeFn\<close>; and the
  metadata the decorator defines contains an entry with the name and the \<open>sqlExp\<close> of
  \<open>x\<close>.
\<close>

theorem C9_custom_expression_field:
  assumes "customFilterData e = Some fs"
    and "filterInputType e"
    and "getFields e = fs"
    and "find (\<lambda>y. fm_name y = fm_name x) fs = Some x"
    and "targetClassMetadata reg (fm_typeFn x) = None"
    and "typeFn column = fm_typeFn x"
    and "map_of (filterFullTypes s) (whereKey [e]) = None"
    and "map_of (filterTypes s) (filterKey [e]) = None"
    and "map_of (propertyTypes s) (propertyKey (fm_name x) (cname e)) = None"
    and "Filter c reg (Single e) opts s = (res, s1)"
  shows "\<exists>decorator rx.
           res = Inr decorator \<and>
           map_of (propertyTypes s1) (propertyKey (fm_name x) (cname e)) = Some rx \<and>
           map (\<lambda>a. (attr_name a, attr_type a)) (fieldMetadata (heap s1 ! rx)) =
             map (\<lambda>a. (attr_name a, attr_type a)) (fieldMetadata (PropertyFilter c column k)) \<and>
           length (fieldMetadata (heap s1 ! rx)) = 13 \<and>
           (\<exists>recorded.
              map_of (definedMetadata (decorator (tgt, propertyName, paramIndex) h))
                (FILTER_DECORATOR_CUSTOM_FIELDS_METADATA_KEY c, tgt, propertyName)
                = Some recorded \<and>
              \<lparr>cf_name = fm_name x, cf_typeFn = fm_typeFn x, sqlExp = fm_sqlExp x\<rparr>
                \<in> set recorded)"
proof -
  let ?f = "\<lparr>name = fm_name x, typeFn = fm_typeFn x, options = None,
             qlExp = Some (fm_sqlExp x)\<rparr>"
  let ?key = "propertyKey (fm_name x) (cname e)"
  have cn: "concatNames [e] = cname e" by (simp add: concatNames_def)
  obtain res0 s0 where g: "generateFilterInputType c reg [e] s = (res0, s0)"
    by (cases "generateFilterInputType c reg [e] s")
  have props: "collectProperties reg [e] [] = Inr (customProps fs)"
    using assms(1) by simp
  from find_SomeD [OF assms(4)] have xin: "x \<in> set fs" by simp
  have "find (\<lambda>y. fm_name y = fm_name x \<and> targetClassMetadata reg (fm_typeFn y) = None) fs
          = Some x"
    using assms(4,5) by (rule find_conj)
  then have first:
    "find (\<lambda>f. name f = fm_name x \<and> targetClassMetadata reg (typeFn f) = None) (customProps fs)
       = Some ?f"
    by (simp add: customProps_def find_map)
  from assms(9) have pmiss: "map_of (propertyTypes s) (propertyKey (fm_name x) (concatNames [e]))
                               = None"
    by (simp add: cn)
  from gfit_first_declaration [OF assms(8) props first pmiss g] obtain rx
    where r0: "res0 = Inr (length (heap s))" and rxlt: "rx < length (heap s0)"
      and rx: "map_of (propertyTypes s0) ?key = Some rx"
      and obj: "heap s0 ! rx = PropertyFilter c ?f ?key"
    unfolding cn by blast
  from g r0 have g': "generateFilterInputType c reg [e] s = (Inr (length (heap s)), s0)"
    by simp
  have full: "getFilterFullInputType c reg [e] s =
     (Inr (length (heap s0)),
      s0\<lparr>heap := heap s0 @ [EntityWhereInput c (whereKey [e]) (length (heap s))],
         filterFullTypes := AList.update (whereKey [e]) (length (heap s0))
                              (filterFullTypes s0)\<rparr>)"
    using assms(7) g' by (rule gffit_miss)
  let ?dec = "parameterDecorator c (customFieldsOf [e]) opts (length (heap s0))"
  from assms(10) full have res: "res = Inr ?dec"
    and s1: "s1 = s0\<lparr>heap := heap s0 @ [EntityWhereInput c (whereKey [e]) (length (heap s))],
                     filterFullTypes := AList.update (whereKey [e]) (length (heap s0))
                                          (filterFullTypes s0)\<rparr>"
    by (auto simp: Filter_def)
  have rx1: "map_of (propertyTypes s1) ?key = Some rx" using rx by (simp add: s1)
  have obj1: "heap s1 ! rx = PropertyFilter c ?f ?key"
    using obj rxlt by (simp add: s1 nth_append)
  have sig: "map (\<lambda>a. (attr_name a, attr_type a)) (fieldMetadata (heap s1 ! rx)) =
             map (\<lambda>a. (attr_name a, attr_type a)) (fieldMetadata (PropertyFilter c column k))"
    unfolding obj1 PropertyFilter_signature using assms(6) by simp
  have n13: "length (fieldMetadata (heap s1 ! rx)) = 13"
    unfolding obj1 by (simp add: PropertyFilter_def operationKeys_def)
  have meta: "map_of (definedMetadata (?dec (tgt, propertyName, paramIndex) h))
                (FILTER_DECORATOR_CUSTOM_FIELDS_METADATA_KEY c, tgt, propertyName)
                = Some (customFieldsOf [e])"
    by (simp add: parameterDecorator_def update_conv')
  have mem: "\<lparr>cf_name = fm_name x, cf_typeFn = fm_typeFn x, sqlExp = fm_sqlExp x\<rparr>
               \<in> set (customFieldsOf [e])"
    using assms(2,3) xin by (simp add: customFieldsOf_def image_iff) blast
  from res rx1 sig n13 meta mem show ?thesis by blast
qed

theorem C9_counterexample_thirteen_attributes:
  "customFilterData User = Some [fullNameField] \<and>
   fm_sqlExp fullNameField = ''concat(fname,'' @ [CHR 0x27] @ '' '' @ [CHR 0x27] @ '',lname)'' \<and>
   map_of (propertyTypes (snd (Filter exampleConstants exampleRegistry (Single User) None
                                 initialState)))
     ''fullNameUserPropertyFilterType'' = Some 1 \<and>
   length (fieldMetadata
             (heap (snd (Filter exampleConstants exampleRegistry (Single User) None
                           initialState)) ! 1)) = 13 \<and>
   length (fieldMetadata
             (heap (snd (Filter exampleConstants exampleRegistry (Single User) None
                           initialState)) ! 1)) \<noteq> 12"
  by (simp add: Filter_def model_defs example_defs)

theorem C9_custom_expression_field_witness:
  "customFilterData User = Some [fullNameField] \<and>
   filterInputType User \<and>
   getFields User = [fullNameField] \<and>
   find (\<lambda>y. fm_name y = fm_name fullNameField) [fullNameField] = Some fullNameField \<and>
   targetClassMetadata exampleRegistry (fm_typeFn fullNameField) = None \<and>
   typeFn titleField = fm_typeFn fullNameField \<and>
   map_of (filterFullTypes initialState) (whereKey [User]) = None \<and>
   map_of (filterTypes initialState) (filterKey [User]) = None \<and>
   map_of (propertyTypes initialState) (propertyKey (fm_name fullNameField) (cname User))
     = None \<and>
   map (\<lambda>a. (attr_name a, attr_type a))
     (fieldMetadata
        (heap (snd (Filter exampleConstants exampleRegistry (Single User) None initialState))
         ! 1)) =
   map (\<lambda>a. (attr_name a, attr_type a))
     (fieldMetadata (PropertyFilter exampleConstants titleField ''titleTaskPropertyFilterType''))
   \<and>
   \<lparr>cf_name = ''fullName'', cf_typeFn = GString,
    sqlExp = ''concat(fname,'' @ [CHR 0x27] @ '' '' @ [CHR 0x27] @ '',lname)''\<rparr>
     \<in> set (the (map_of
                  (definedMetadata
                     (projr (fst (Filter exampleConstants exampleRegistry (Single User) None
                                    initialState))
                        (7, ''users'', 0) initialHost))
                  (''FilterCustomFields'', 7, ''users'')))"
proof -
  let ?F = "Filter exampleConstants exampleRegistry (Single User) None initialState"
  have a1: "customFilterData User = Some [fullNameField]" by (simp add: User_def)
  have a2: "filterInputType User" by (simp add: User_def)
  have a3: "getFields User = [fullNameField]" by (simp add: User_def)
  have a4: "find (\<lambda>y. fm_name y = fm_name fullNameField) [fullNameField] = Some fullNameField"
    by simp
  have a5: "targetClassMetadata exampleRegistry (fm_typeFn fullNameField) = None"
    by (simp add: fullNameField_def)
  have a6: "typeFn titleField = fm_typeFn fullNameField"
    by (simp add: fullNameField_def titleField_def)
  have a7: "map_of (filterFullTypes initialState) (whereKey [User]) = None"
    by (simp add: initialState_def)
  have a8: "map_of (filterTypes initialState) (filterKey [User]) = None"
    by (simp add: initialState_def)
  have a9: "map_of (propertyTypes initialState)
              (propertyKey (fm_name fullNameField) (cname User)) = None"
    by (simp add: initialState_def)
  have a10: "?F = (fst ?F, snd ?F)" by simp
  have cached: "map_of (propertyTypes (snd ?F))
                  (propertyKey (fm_name fullNameField) (cname User)) = Some 1"
    by (simp add: Filter_def model_defs example_defs)
  note T = C9_custom_expression_field [OF a1 a2 a3 a4 a5 a6 a7 a8 a9 a10,
      of "''titleTaskPropertyFilterType''" 7 "''users''" 0 initialHost]
  from T cached have b: "map (\<lambda>a. (attr_name a, attr_type a)) (fieldMetadata (heap (snd ?F) ! 1)) =
     map (\<lambda>a. (attr_name a, attr_type a))
       (fieldMetadata (PropertyFilter exampleConstants titleField
                         ''titleTaskPropertyFilterType''))"
    by auto
  from T have "\<lparr>cf_name = fm_name fullNameField, cf_typeFn = fm_typeFn fullNameField,
                 sqlExp = fm_sqlExp fullNameField\<rparr>
     \<in> set (the (map_of (definedMetadata (projr (fst ?F) (7, ''users'', 0) initialHost))
                  (FILTER_DECORATOR_CUSTOM_FIELDS_METADATA_KEY exampleConstants, 7, ''users'')))"
    by auto
  then have c: "\<lparr>cf_name = ''fullName'', cf_typeFn = GString,
    sqlExp = ''concat(fname,'' @ [CHR 0x27] @ '' '' @ [CHR 0x27] @ '',lname)''\<rparr>
     \<in> set (the (map_of (definedMetadata (projr (fst ?F) (7, ''users'', 0) initialHost))
                  (''FilterCustomFields'', 7, ''users'')))"
    by (simp add: fullNameField_def exampleConstants_def)
  from a1 a2 a3 a4 a5 a6 a7 a8 a9 b c show ?thesis by (intro conjI)
qed

text \<open>
  C10. The cache key of a field-predicate type is built from the field's name and the
  group key only. When two declarations with the same name are generated one after the
  other under the same group key, the second call returns the class of the first call and
  leaves every cache and the store as they are, whatever the second declaration's
  \<open>typeFn\<close>; and when the first call found nothing cached under the key, that class
  is the one constructed from the first declaration.
\<close>

theorem C10_first_declaration_cached:
  assumes "name f2 = name f1"
    and "generateFilterPropertyType c f1 p s = (r1, s1)"
  shows "generateFilterPropertyType c' f2 p s1 = (r1, s1) \<and>
         (map_of (propertyTypes s) (propertyKey (name f1) p) = None \<longrightarrow>
            heap s1 ! r1 = PropertyFilter c f1 (propertyKey (name f1) p))"
proof
  from gfpt_cached [OF assms(2)] assms(1)
  show "generateFilterPropertyType c' f2 p s1 = (r1, s1)"
    by (simp add: gfpt_hit)
  show "map_of (propertyTypes s) (propertyKey (name f1) p) = None \<longrightarrow>
          heap s1 ! r1 = PropertyFilter c f1 (propertyKey (name f1) p)"
    using assms(2) by (auto simp: gfpt_miss)
qed

theorem C10_first_declaration_cached_witness:
  "name titleIntField = name titleField \<and> typeFn titleIntField \<noteq> typeFn titleField \<and>
   map_of (propertyTypes initialState) (propertyKey (name titleField) ''Task'') = None \<and>
   generateFilterPropertyType exampleConstants titleField ''Task'' initialState =
     (0, \<lparr>filterFullTypes = [], filterTypes = [],
          propertyTypes = [(''titleTaskPropertyFilterType'', 0)],
          heap = [PropertyFilter exampleConstants titleField ''titleTaskPropertyFilterType'']\<rparr>) \<and>
   generateFilterPropertyType exampleConstants titleIntField ''Task''
     \<lparr>filterFullTypes = [], filterTypes = [],
      propertyTypes = [(''titleTaskPropertyFilterType'', 0)],
      heap = [PropertyFilter exampleConstants titleField ''titleTaskPropertyFilterType'']\<rparr> =
     (0, \<lparr>filterFullTypes = [], filterTypes = [],
          propertyTypes = [(''titleTaskPropertyFilterType'', 0)],
          heap = [PropertyFilter exampleConstants titleField ''titleTaskPropertyFilterType'']\<rparr>)"
proof -
  have n: "name titleIntField = name titleField"
    by (simp add: titleField_def titleIntField_def)
  have g: "generateFilterPropertyType exampleConstants titleField ''Task'' initialState =
     (0, \<lparr>filterFullTypes = [], filterTypes = [],
          propertyTypes = [(''titleTaskPropertyFilterType'', 0)],
          heap = [PropertyFilter exampleConstants titleField ''titleTaskPropertyFilterType'']\<rparr>)"
    by (simp add: generateFilterPropertyType_def initialState_def propertyKey_def
          PropertyFilterType_def titleField_def Let_def)
  from C10_first_declaration_cached [OF n g, of exampleConstants] n g show ?thesis
    by (simp add: titleField_def titleIntField_def initialState_def propertyKey_def
          PropertyFilterType_def)
qed

end
